theory Spec2Isabelle
  imports Main "HOL-Library.Word" "HOL-Library.AList"
begin

unbundle bit_operations_syntax

section \<open>Python values and exceptions\<close>

text \<open>
  The values a configuration parameter can take (\<open>'NPT'\<close>, \<open>1\<close>, \<open>None\<close>, ...) are
  modelled by three of Python's types, \<open>None\<close>, \<open>int\<close> and \<open>str\<close>, on which Python's
  \<open>==\<close> is structural equality. Device codes (the \<open>_byte\<close> of a parameter) are integers,
  or \<open>None\<close> before the first assignment: \<open>int option\<close>.
\<close>

datatype pyval = PNone | PInt int | PStr string

text \<open>
  Every \<open>raise\<close> of the driver and every exception the interpreter raises on its behalf.
  The argument is the exception's message (for a failed dictionary lookup, the key).
\<close>

datatype error =
    Exception string
  | KeyError string
  | TypeError string
  | NameError string
  | AttributeError string
  | ValueError string
  | ArgumentError string

subsection \<open>\<open>str()\<close> on integers and parameter values\<close>

definition digit_char :: "nat \<Rightarrow> char" where
  "digit_char d = ''0123456789'' ! d"

fun str_nat :: "nat \<Rightarrow> string" where
  "str_nat n = (if n < 10 then [digit_char n] else str_nat (n div 10) @ [digit_char (n mod 10)])"

declare str_nat.simps [simp del]

definition str_int :: "int \<Rightarrow> string" where
  "str_int i = (if i < 0 then CHR ''-'' # str_nat (nat (- i)) else str_nat (nat i))"

fun py_str :: "pyval \<Rightarrow> string" where
  "py_str PNone = ''None''"
| "py_str (PInt i) = str_int i"
| "py_str (PStr s) = s"

section \<open>AlazarParameter\<close>

text \<open>
  The attributes of an \<open>AlazarParameter\<close> object. A dictionary is an association list in
  insertion order, read with \<open>map_of\<close>. \<open>pname\<close> is the \<open>name\<close> handed to the base class.
\<close>

record AlazarParameter =
  pname :: pyval
  byte :: "int option"
  uptodate_flag :: bool
  byte_to_value_dict :: "(int \<times> pyval) list"
  value_to_byte_dict :: "(pyval \<times> int) list"

definition stale_message :: string where
  "stale_message =
     ''The value of this parameter is not up to date with the actual value in the instrument.'' @
     [CHR 0x0A] @ '' Most probable cause is illegal usage of ._set() method of this parameter.'' @
     [CHR 0x0A] @ '' Don't use private methods if you do not know what you are doing!''"

text \<open>\<open>get\<close>: raises on a stale parameter, else looks the code up in \<open>_byte_to_value_dict\<close>.\<close>

definition AlazarParameter_get :: "AlazarParameter \<Rightarrow> error + pyval" where
  "AlazarParameter_get p =
     (if \<not> uptodate_flag p then Inl (Exception stale_message)
      else case byte p of
             None \<Rightarrow> Inl (KeyError ''None'')
           | Some b \<Rightarrow> (case map_of (byte_to_value_dict p) b of
                         None \<Rightarrow> Inl (KeyError (str_int b))
                       | Some v \<Rightarrow> Inr v))"

definition AlazarParameter_get_byte :: "AlazarParameter \<Rightarrow> int option" where
  "AlazarParameter_get_byte p = byte p"

definition unknown_setting_message :: "pyval \<Rightarrow> pyval \<Rightarrow> string" where
  "unknown_setting_message v n =
     ''Value '' @ [CHR 0x22] @ py_str v @ [CHR 0x22] @ '' unknown setting in parameter '' @
     [CHR 0x22] @ py_str n @ [CHR 0x22]"

text \<open>
  \<open>_set\<close>: the outcome and the object after the call. On an unknown value the exception
  is raised before either attribute is assigned.
\<close>

definition AlazarParameter_set :: "AlazarParameter \<Rightarrow> pyval \<Rightarrow> (error + unit) \<times> AlazarParameter" where
  "AlazarParameter_set p v =
     (case map_of (value_to_byte_dict p) v of
        None \<Rightarrow> (Inl (KeyError (unknown_setting_message v (pname p))), p)
      | Some b \<Rightarrow> (Inr (), p\<lparr>byte := Some b, uptodate_flag := False\<rparr>))"

definition AlazarParameter_set_updated :: "AlazarParameter \<Rightarrow> AlazarParameter" where
  "AlazarParameter_set_updated p = p\<lparr>uptodate_flag := True\<rparr>"

text \<open>
  \<open>__init__\<close>. The comprehension \<open>{v: k for k, v in self._byte_to_value_dict}\<close> iterates
  over the dictionary itself, that is over its keys, and unpacks each key into \<open>k, v\<close>.
  A key is a device code, an \<open>int\<close>, which cannot be unpacked; iterating over the default
  \<open>None\<close> fails as well. The last statement is \<open>self._set(value)\<close>.
\<close>

definition unpack_key :: "int \<Rightarrow> error + (int \<times> pyval)" where
  "unpack_key k = Inl (TypeError ''cannot unpack non-iterable int object'')"

fun dict_comprehension :: "int list \<Rightarrow> (pyval \<times> int) list \<Rightarrow> error + (pyval \<times> int) list" where
  "dict_comprehension [] acc = Inr acc"
| "dict_comprehension (key # keys) acc =
     (case unpack_key key of
        Inl e \<Rightarrow> Inl e
      | Inr (k, v) \<Rightarrow> dict_comprehension keys (AList.update v k acc))"

definition AlazarParameter_init ::
  "pyval \<Rightarrow> pyval \<Rightarrow> (int \<times> pyval) list option \<Rightarrow> error + AlazarParameter" where
  "AlazarParameter_init nm v b2v =
     (case b2v of
        None \<Rightarrow> Inl (TypeError '''NoneType' object is not iterable'')
      | Some d \<Rightarrow>
          (case dict_comprehension (map fst d) [] of
             Inl e \<Rightarrow> Inl e
           | Inr v2b \<Rightarrow>
               (case AlazarParameter_set
                       \<lparr>pname = nm, byte = None, uptodate_flag = True,
                        byte_to_value_dict = d, value_to_byte_dict = v2b\<rparr> v of
                  (Inl e, _) \<Rightarrow> Inl e
                | (Inr _, p) \<Rightarrow> Inr p)))"

section \<open>The instrument: state, driver and exceptions as values\<close>

text \<open>
  A driver call is recorded with the name of the library function, the arguments the
  function received (an integer, \<open>None\<close>, or a pointer to a named output array) and the
  status code it returned.
\<close>

datatype carg = CInt int | CNone | CPtr string

record dll_call =
  fname :: string
  args :: "carg list"
  ret :: int

text \<open>
  The vendor library is outside the program. It is a parameter of the model: the status
  code of a call, and the contents written by \<open>AlazarGetChannelInfo\<close> (memory size, bits
  per sample), may depend on every call made so far.
\<close>

record driver =
  status_of :: "dll_call list \<Rightarrow> string \<Rightarrow> carg list \<Rightarrow> int"
  channel_info :: "dll_call list \<Rightarrow> 32 word \<times> 8 word"
  c_long_bits :: nat

text \<open>The attributes of a \<open>Buffer\<close> object: \<open>_allocated\<close>, \<open>addr\<close> and the length of \<open>buffer\<close>.\<close>

record Buffer =
  allocated :: bool
  addr :: int
  buffer_len :: int

text \<open>
  The instrument object together with what it wrote to the outside: the driver calls made
  and the warnings logged. \<open>parameters\<close> is the dictionary of the instrument base class;
  \<open>buflist\<close> and \<open>waittimeout\<close> are attributes the class reads but never assigns, so each
  may be absent (\<open>None\<close>).
\<close>

record ATS =
  parameters :: "string \<rightharpoonup> AlazarParameter"
  handle :: int
  buflist :: "Buffer list option"
  waittimeout :: "int option"
  calls :: "dll_call list"
  warnings :: "string list"

text \<open>\<open>self._succes\<close>, assigned once in \<open>__init__\<close>.\<close>

definition succes :: int where
  "succes = 512"

text \<open>
  A statement of a method: it runs on the instrument, raises or returns a result, and
  leaves the instrument as it is at that point.
\<close>

type_synonym 'a act = "ATS \<Rightarrow> (error + 'a) \<times> ATS"

definition returnE :: "'a \<Rightarrow> 'a act" where
  "returnE x = (\<lambda>s. (Inr x, s))"

definition raiseE :: "error \<Rightarrow> 'a act" where
  "raiseE e = (\<lambda>s. (Inl e, s))"

definition bindE :: "'a act \<Rightarrow> ('a \<Rightarrow> 'b act) \<Rightarrow> 'b act" where
  "bindE m f = (\<lambda>s. case m s of (Inl e, s') \<Rightarrow> (Inl e, s') | (Inr x, s') \<Rightarrow> f x s')"

definition thenE :: "unit act \<Rightarrow> 'b act \<Rightarrow> 'b act" where
  "thenE m n = bindE m (\<lambda>_. n)"

fun seqE :: "unit act list \<Rightarrow> unit act" where
  "seqE [] = returnE ()"
| "seqE (m # ms) = thenE m (seqE ms)"

definition liftE :: "error + 'a \<Rightarrow> 'a act" where
  "liftE r = (\<lambda>s. (r, s))"

subsection \<open>Access to \<open>self.parameters\<close>\<close>

definition lookup_param :: "string \<Rightarrow> AlazarParameter act" where
  "lookup_param key = (\<lambda>s. case parameters s key of
                               None \<Rightarrow> (Inl (KeyError key), s)
                             | Some p \<Rightarrow> (Inr p, s))"

text \<open>\<open>self.parameters[key]._set(v)\<close>: the object in the dictionary is changed in place.\<close>

definition param_set :: "string \<Rightarrow> pyval \<Rightarrow> unit act" where
  "param_set key v =
     bindE (lookup_param key) (\<lambda>p s.
       case AlazarParameter_set p v of
         (r, p') \<Rightarrow> (r, s\<lparr>parameters := (parameters s)(key \<mapsto> p')\<rparr>))"

definition param_get :: "string \<Rightarrow> pyval act" where
  "param_get key = bindE (lookup_param key) (\<lambda>p. liftE (AlazarParameter_get p))"

definition param_get_byte :: "string \<Rightarrow> int option act" where
  "param_get_byte key = bindE (lookup_param key) (\<lambda>p. returnE (AlazarParameter_get_byte p))"

definition param_set_updated :: "string \<Rightarrow> unit act" where
  "param_set_updated key =
     bindE (lookup_param key) (\<lambda>p s.
       (Inr (), s\<lparr>parameters := (parameters s)(key \<mapsto> AlazarParameter_set_updated p)\<rparr>))"

text \<open>\<open>if arg is not None: self.parameters[key]._set(arg)\<close>\<close>

definition set_if_given :: "string \<Rightarrow> pyval \<Rightarrow> unit act" where
  "set_if_given key arg = (if arg = PNone then returnE () else param_set key arg)"

text \<open>\<open>for i, v in enumerate(arg): self.parameters[base + str(i)]._set(v)\<close>\<close>

fun set_enumerated :: "string \<Rightarrow> nat \<Rightarrow> pyval list \<Rightarrow> unit act" where
  "set_enumerated base i [] = returnE ()"
| "set_enumerated base i (v # vs) =
     thenE (param_set (base @ str_nat i) v) (set_enumerated base (Suc i) vs)"

definition set_each_if_given :: "string \<Rightarrow> pyval list option \<Rightarrow> unit act" where
  "set_each_if_given base arg =
     (case arg of None \<Rightarrow> returnE () | Some vs \<Rightarrow> set_enumerated base 0 vs)"

subsection \<open>\<open>_result_handler\<close>\<close>

definition error_codes :: "(int \<times> string) list" where
  "error_codes =
    [(513, ''ApiFailed''),
     (514, ''ApiAccessDenied''),
     (515, ''ApiDmaChannelUnavailable''),
     (516, ''ApiDmaChannelInvalid''),
     (517, ''ApiDmaChannelTypeError''),
     (518, ''ApiDmaInProgress''),
     (519, ''ApiDmaDone''),
     (520, ''ApiDmaPaused''),
     (521, ''ApiDmaNotPaused''),
     (522, ''ApiDmaCommandInvalid''),
     (523, ''ApiDmaManReady''),
     (524, ''ApiDmaManNotReady''),
     (525, ''ApiDmaInvalidChannelPriority''),
     (526, ''ApiDmaManCorrupted''),
     (527, ''ApiDmaInvalidElementIndex''),
     (528, ''ApiDmaNoMoreElements''),
     (529, ''ApiDmaSglInvalid''),
     (530, ''ApiDmaSglQueueFull''),
     (531, ''ApiNullParam''),
     (532, ''ApiInvalidBusIndex''),
     (533, ''ApiUnsupportedFunction''),
     (534, ''ApiInvalidPciSpace''),
     (535, ''ApiInvalidIopSpace''),
     (536, ''ApiInvalidSize''),
     (537, ''ApiInvalidAddress''),
     (538, ''ApiInvalidAccessType''),
     (539, ''ApiInvalidIndex''),
     (540, ''ApiMuNotReady''),
     (541, ''ApiMuFifoEmpty''),
     (542, ''ApiMuFifoFull''),
     (543, ''ApiInvalidRegister''),
     (544, ''ApiDoorbellClearFailed''),
     (545, ''ApiInvalidUserPin''),
     (546, ''ApiInvalidUserState''),
     (547, ''ApiEepromNotPresent''),
     (548, ''ApiEepromTypeNotSupported''),
     (549, ''ApiEepromBlank''),
     (550, ''ApiConfigAccessFailed''),
     (551, ''ApiInvalidDeviceInfo''),
     (552, ''ApiNoActiveDriver''),
     (553, ''ApiInsufficientResources''),
     (554, ''ApiObjectAlreadyAllocated''),
     (555, ''ApiAlreadyInitialized''),
     (556, ''ApiNotInitialized''),
     (557, ''ApiBadConfigRegEndianMode''),
     (558, ''ApiInvalidPowerState''),
     (559, ''ApiPowerDown''),
     (560, ''ApiFlybyNotSupported''),
     (561, ''ApiNotSupportThisChannel''),
     (562, ''ApiNoAction''),
     (563, ''ApiHSNotSupported''),
     (564, ''ApiVPDNotSupported''),
     (565, ''ApiVpdNotEnabled''),
     (566, ''ApiNoMoreCap''),
     (567, ''ApiInvalidOffset''),
     (568, ''ApiBadPinDirection''),
     (569, ''ApiPciTimeout''),
     (570, ''ApiDmaChannelClosed''),
     (571, ''ApiDmaChannelError''),
     (572, ''ApiInvalidHandle''),
     (573, ''ApiBufferNotReady''),
     (574, ''ApiInvalidData''),
     (575, ''ApiDoNothing''),
     (576, ''ApiDmaSglBuildFailed''),
     (577, ''ApiPMNotSupported''),
     (578, ''ApiInvalidDriverVersion''),
     (579, ''ApiWaitTimeout: operation did not finish during timeout interval. Check your trigger.''),
     (580, ''ApiWaitCanceled''),
     (581, ''ApiBufferTooSmall''),
     (582, ''ApiBufferOverflow:rate of acquiring data > rate of transferring data to local memory. Try reducing sample rate, reducing number of enabled channels, increasing size of each DMA buffer or increase number of DMA buffers.''),
     (583, ''ApiInvalidBuffer''),
     (584, ''ApiInvalidRecordsPerBuffer''),
     (585, ''ApiDmaPending:Async I/O operation was succesfully started, it will be completed when sufficient trigger events are supplied to fill the buffer.''),
     (586, ''ApiLockAndProbePagesFailed:Driver or operating system was unable to prepare the specified buffer for DMA transfer. Try reducing buffer size or total number of buffers.''),
     (587, ''ApiWaitAbandoned''),
     (588, ''ApiWaitFailed''),
     (589, ''ApiTransferComplete:This buffer is last in the current acquisition.''),
     (590, ''ApiPllNotLocked:hardware error, contact AlazarTech''),
     (591, ''ApiNotSupportedInDualChannelMode:Requested number of samples per channel is too large to fit in on-board memory. Try reducing number of samples per channel, or switch to single channel mode.'')]"

definition result_handler :: "int \<Rightarrow> string \<Rightarrow> error + unit" where
  "result_handler error_code error_source =
     (if error_code = succes then Inr ()
      else case map_of error_codes error_code of
             None \<Rightarrow> Inl (KeyError (error_source @ '' raised unknown error '' @ str_int error_code))
           | Some msg \<Rightarrow>
               Inl (Exception (error_source @ '' raised '' @ str_int error_code @ '': '' @ msg)))"

subsection \<open>Driver calls\<close>

definition carg_of :: "int option \<Rightarrow> carg" where
  "carg_of b = (case b of None \<Rightarrow> CNone | Some i \<Rightarrow> CInt i)"

text \<open>
  No \<open>argtypes\<close> are declared for the functions of the library, so \<open>ctypes\<close> converts
  every Python \<open>int\<close> argument by its default rule: an \<open>int\<close> outside the range of the
  platform's C \<open>long\<close> (signed or unsigned; \<open>c_long_bits\<close> is its width, 32 on Windows)
  is refused with \<open>ArgumentError\<close> before the function is called, and any other is passed
  as a C \<open>int\<close>, which keeps its low 32 bits. \<open>None\<close> is passed as a null pointer.
\<close>

definition c_int :: "int \<Rightarrow> int" where
  "c_int n = sint (word_of_int n :: 32 word)"

definition marshal :: "nat \<Rightarrow> carg \<Rightarrow> error + carg" where
  "marshal bits x =
     (case x of
        CInt n \<Rightarrow>
          if - (2 ^ (bits - 1)) \<le> n \<and> n < 2 ^ bits then Inr (CInt (c_int n))
          else Inl (ArgumentError ''int too long to convert'')
      | _ \<Rightarrow> Inr x)"

fun marshal_all :: "nat \<Rightarrow> carg list \<Rightarrow> error + carg list" where
  "marshal_all bits [] = Inr []"
| "marshal_all bits (x # xs) =
     (case marshal bits x of
        Inl e \<Rightarrow> Inl e
      | Inr y \<Rightarrow> (case marshal_all bits xs of Inl e \<Rightarrow> Inl e | Inr ys \<Rightarrow> Inr (y # ys)))"

text \<open>
  \<open>return_code = self._ATS9870_dll.f(self._handle, ...)\<close>: when the arguments convert,
  the call is appended to the record of calls, with the arguments the driver receives
  and the status it answers.
\<close>

definition dll :: "driver \<Rightarrow> string \<Rightarrow> carg list \<Rightarrow> int act" where
  "dll drv f xs =
     (\<lambda>s. case marshal_all (c_long_bits drv) (CInt (handle s) # xs) of
            Inl e \<Rightarrow> (Inl e, s)
          | Inr ys \<Rightarrow>
              let rc = status_of drv (calls s) f ys
              in (Inr rc, s\<lparr>calls := calls s @ [\<lparr>fname = f, args = ys, ret = rc\<rparr>]\<rparr>))"

text \<open>A driver call followed by \<open>self._result_handler(error_code=return_code, error_source=src)\<close>.\<close>

definition dll_checked :: "driver \<Rightarrow> string \<Rightarrow> carg list \<Rightarrow> string \<Rightarrow> unit act" where
  "dll_checked drv f xs src = bindE (dll drv f xs) (\<lambda>rc. liftE (result_handler rc src))"

fun get_bytes :: "string list \<Rightarrow> int option list act" where
  "get_bytes [] = returnE []"
| "get_bytes (k # ks) =
     bindE (param_get_byte k) (\<lambda>b. bindE (get_bytes ks) (\<lambda>bs. returnE (b # bs)))"

section \<open>\<open>config\<close>\<close>

record config_args =
  clock_source :: pyval
  sample_rate :: pyval
  clock_edge :: pyval
  decimation :: pyval
  coupling :: "pyval list option"
  channel_range :: "pyval list option"
  impedence :: "pyval list option"
  bwlimit :: "pyval list option"
  trigger_operation :: pyval
  trigger_engine1 :: pyval
  trigger_source1 :: pyval
  trigger_slope1 :: pyval
  trigger_level1 :: pyval
  trigger_engine2 :: pyval
  trigger_source2 :: pyval
  trigger_slope2 :: pyval
  trigger_level2 :: pyval
  external_trigger_coupling :: pyval
  trigger_range :: pyval
  trigger_delay :: pyval
  timeout_ticks :: pyval

text \<open>The region "set parameters from args" of \<open>config\<close>.\<close>

definition config_set_args :: "config_args \<Rightarrow> unit act" where
  "config_set_args a = seqE
     [set_if_given ''clock_source'' (clock_source a),
      set_if_given ''sample_rate'' (sample_rate a),
      set_if_given ''clock_edge'' (clock_edge a),
      set_if_given ''decimation'' (decimation a),
      set_each_if_given ''coupling'' (coupling a),
      set_each_if_given ''range'' (channel_range a),
      set_each_if_given ''impedence'' (impedence a),
      set_each_if_given ''bwlimit'' (bwlimit a),
      set_if_given ''trigger_operation'' (trigger_operation a),
      set_if_given ''trigger_engine1'' (trigger_engine1 a),
      set_if_given ''trigger_source1'' (trigger_source1 a),
      set_if_given ''trigger_slope1'' (trigger_slope1 a),
      set_if_given ''trigger_level1'' (trigger_level1 a),
      set_if_given ''trigger_engine2'' (trigger_engine2 a),
      set_if_given ''trigger_source2'' (trigger_source2 a),
      set_if_given ''trigger_slope2'' (trigger_slope2 a),
      set_if_given ''trigger_level2'' (trigger_level2 a),
      set_if_given ''external_trigger_coupling'' (external_trigger_coupling a),
      set_if_given ''trigger_range'' (trigger_range a),
      set_if_given ''trigger_delay'' (trigger_delay a),
      set_if_given ''timeout_ticks'' (timeout_ticks a)]"

text \<open>
  One device call of \<open>config\<close> with the statements around it: the codes of the fields
  are read (left to right, as the arguments are evaluated), the library function is
  called with the handle, the leading arguments and the codes, the status goes through
  \<open>_result_handler\<close>, and then \<open>_set_updated()\<close> is called on every field read.
\<close>

record device_step =
  step_fname :: string
  step_leading :: "carg list"
  step_fields :: "string list"
  step_source :: string

definition device_call :: "driver \<Rightarrow> device_step \<Rightarrow> unit act" where
  "device_call drv g =
     bindE (get_bytes (step_fields g)) (\<lambda>bs.
     thenE (dll_checked drv (step_fname g) (step_leading g @ map carg_of bs) (step_source g))
           (seqE (map param_set_updated (step_fields g))))"

text \<open>The device calls of \<open>config\<close> in program order; the loop \<open>for i in [1, 2]\<close> is unrolled.\<close>

definition input_steps :: "int \<Rightarrow> device_step list" where
  "input_steps i =
     [\<lparr>step_fname = ''AlazarInputControl'', step_leading = [CInt i],
       step_fields = [''coupling'' @ str_int i, ''range'' @ str_int i, ''impedence'' @ str_int i],
       step_source = ''AlazarInputControl '' @ str_int i\<rparr>,
      \<lparr>step_fname = ''AlazarSetBWLimit'', step_leading = [CInt i],
       step_fields = [''bwlimit'' @ str_int i],
       step_source = ''AlazarSetBWLimit '' @ str_int i\<rparr>]"

definition config_steps :: "device_step list" where
  "config_steps =
     [\<lparr>step_fname = ''AlazarSetCaptureClock'', step_leading = [],
       step_fields = [''clock_source'', ''sample_rate'', ''clock_edge'', ''decimation''],
       step_source = ''AlazarSetCaptureClock''\<rparr>]
     @ input_steps 1 @ input_steps 2 @
     [\<lparr>step_fname = ''AlazarSetTriggerOperation'', step_leading = [],
       step_fields = [''trigger_operation'',
                      ''trigger_engine1'', ''trigger_source1'', ''trigger_slope1'', ''trigger_level1'',
                      ''trigger_engine2'', ''trigger_source2'', ''trigger_slope2'', ''trigger_level2''],
       step_source = ''AlazarSetTriggerOperation''\<rparr>,
      \<lparr>step_fname = ''AlazarSetExternalTrigger'', step_leading = [],
       step_fields = [''external_trigger_coupling'', ''trigger_range''],
       step_source = ''AlazarSetExternalTrigger''\<rparr>,
      \<lparr>step_fname = ''AlazarSetTriggerDelay'', step_leading = [],
       step_fields = [''trigger_delay''],
       step_source = ''AlazarSetTriggerDelay''\<rparr>,
      \<lparr>step_fname = ''AlazarSetTriggerTimeOut'', step_leading = [],
       step_fields = [''timeout_ticks''],
       step_source = ''AlazarSetTriggerTimeOut''\<rparr>]"

definition run_steps :: "driver \<Rightarrow> device_step list \<Rightarrow> unit act" where
  "run_steps drv gs = seqE (map (device_call drv) gs)"

definition config :: "driver \<Rightarrow> config_args \<Rightarrow> unit act" where
  "config drv a = thenE (config_set_args a) (run_steps drv config_steps)"

section \<open>\<open>acquire\<close>\<close>

record acquire_args =
  mode :: pyval
  samples_per_record :: pyval
  records_per_buffer :: pyval
  buffers_per_acquisition :: pyval
  channel_selection :: pyval
  transfer_offset :: pyval
  external_startcapture :: pyval
  enable_record_headers :: pyval
  alloc_buffers :: pyval
  fifo_only_streaming :: pyval
  interleave_samples :: pyval
  get_processed_data :: pyval

text \<open>
  The region "set parameters from args" of \<open>acquire\<close>. The argument
  \<open>external_startcapture\<close> is stored under the key \<open>'external_starcapture'\<close>.
\<close>

definition acquire_set_args :: "acquire_args \<Rightarrow> unit act" where
  "acquire_set_args a = seqE
     [set_if_given ''mode'' (mode a),
      set_if_given ''samples_per_record'' (samples_per_record a),
      set_if_given ''records_per_buffer'' (records_per_buffer a),
      set_if_given ''buffers_per_acquisition'' (buffers_per_acquisition a),
      set_if_given ''channel_selection'' (channel_selection a),
      set_if_given ''transfer_offset'' (transfer_offset a),
      set_if_given ''external_starcapture'' (external_startcapture a),
      set_if_given ''enable_record_headers'' (enable_record_headers a),
      set_if_given ''alloc_buffers'' (alloc_buffers a),
      set_if_given ''fifo_only_streaming'' (fifo_only_streaming a),
      set_if_given ''interleave_samples'' (interleave_samples a),
      set_if_given ''get_processed_data'' (get_processed_data a)]"

text \<open>The same region without its first statement, the one for the argument \<open>mode\<close>.\<close>

definition acquire_set_rest :: "acquire_args \<Rightarrow> unit act list" where
  "acquire_set_rest a =
     [set_if_given ''samples_per_record'' (samples_per_record a),
      set_if_given ''records_per_buffer'' (records_per_buffer a),
      set_if_given ''buffers_per_acquisition'' (buffers_per_acquisition a),
      set_if_given ''channel_selection'' (channel_selection a),
      set_if_given ''transfer_offset'' (transfer_offset a),
      set_if_given ''external_starcapture'' (external_startcapture a),
      set_if_given ''enable_record_headers'' (enable_record_headers a),
      set_if_given ''alloc_buffers'' (alloc_buffers a),
      set_if_given ''fifo_only_streaming'' (fifo_only_streaming a),
      set_if_given ''interleave_samples'' (interleave_samples a),
      set_if_given ''get_processed_data'' (get_processed_data a)]"

definition unsupported_mode_message :: string where
  "unsupported_mode_message = ''Only the 'TS' and 'NPT' modes are implemented at this point''"

text \<open>\<open>self.parameters['mode'].get() == m\<close>\<close>

definition mode_is :: "string \<Rightarrow> bool act" where
  "mode_is m = bindE (param_get ''mode'') (\<lambda>v. returnE (v = PStr m))"

definition log_warning :: "string \<Rightarrow> unit act" where
  "log_warning msg = (\<lambda>s. (Inr (), s\<lparr>warnings := warnings s @ [msg]\<rparr>))"

text \<open>
  \<open>AlazarGetChannelInfo\<close> writes the memory size and the bits per sample into the two
  arrays it is given; they are read after \<open>_result_handler\<close> has accepted the status.
\<close>

definition get_channel_info :: "driver \<Rightarrow> (32 word \<times> 8 word) act" where
  "get_channel_info drv =
     (\<lambda>s. bindE (dll_checked drv ''AlazarGetChannelInfo'' [CPtr ''max_s'', CPtr ''bps'']
                    ''AlazarGetChannelInfo'')
                 (\<lambda>_. returnE (channel_info drv (calls s))) s)"

definition set_record_size :: "driver \<Rightarrow> unit act" where
  "set_record_size drv =
     bindE (param_get_byte ''samples_per_record'') (\<lambda>post_trigger_size.
     dll_checked drv ''AlazarSetRecordSize'' [CInt 0, carg_of post_trigger_size]
       ''AlazarSetRecordSize'')"

text \<open>Python's \<open>|\<close> and \<open>*\<close> on device codes: defined on two integers, a \<open>TypeError\<close> on \<open>None\<close>.\<close>

fun py_or :: "int option \<Rightarrow> int option \<Rightarrow> error + int option" where
  "py_or (Some x) (Some y) = Inr (Some (x OR y))"
| "py_or _ _ = Inl (TypeError ''unsupported operand type(s) for |'')"

fun py_mul :: "int option \<Rightarrow> int option \<Rightarrow> error + int option" where
  "py_mul (Some x) (Some y) = Inr (Some (x * y))"
| "py_mul _ _ = Inl (TypeError ''unsupported operand type(s) for *'')"

fun or_bytes :: "int option \<Rightarrow> string list \<Rightarrow> int option act" where
  "or_bytes acc [] = returnE acc"
| "or_bytes acc (k # ks) =
     bindE (param_get_byte k) (\<lambda>b. bindE (liftE (py_or acc b)) (\<lambda>r. or_bytes r ks))"

text \<open>The flags are read under the key \<open>'external_startcapture'\<close>.\<close>

definition acquire_flags :: "int option act" where
  "acquire_flags =
     bindE (param_get_byte ''mode'') (\<lambda>m.
     or_bytes m [''external_startcapture'', ''enable_record_headers'', ''alloc_buffers'',
                 ''fifo_only_streaming'', ''interleave_samples'', ''get_processed_data''])"

text \<open>The branch \<open>if self.parameters['mode'].get() == 'NPT'\<close> that prepares the acquisition.\<close>

definition before_async_read_npt :: "driver \<Rightarrow> int option \<Rightarrow> unit act" where
  "before_async_read_npt drv flags =
     bindE (param_get_byte ''samples_per_record'') (\<lambda>spr.
     bindE (param_get_byte ''records_per_buffer'') (\<lambda>rpb.
     bindE (param_get_byte ''buffers_per_acquisition'') (\<lambda>bpa.
     bindE (liftE (py_mul rpb bpa)) (\<lambda>records_per_acquisition.
     bindE (liftE (py_mul spr rpb)) (\<lambda>samples_per_buffer.
     bindE (param_get_byte ''channel_selection'') (\<lambda>cs.
     bindE (param_get_byte ''transfer_offset'') (\<lambda>off.
     dll_checked drv ''AlazarBeforeAsyncRead''
       (map carg_of [cs, off, spr, rpb, records_per_acquisition, flags])
       ''AlazarBeforeAsyncRead'')))))))"

text \<open>
  In the \<open>'TS'\<close> branch the right operand of \<open>%\<close> and of \<open>/\<close> is
  \<open>self.parameters['buffers_per_acquisition']\<close>, the parameter object, not its code. The
  class defines neither operator (the base class is outside the sources and is taken to
  define none), so both operations raise.
\<close>

definition py_mod_object :: "int option \<Rightarrow> AlazarParameter \<Rightarrow> error + int" where
  "py_mod_object x p = Inl (TypeError ''unsupported operand type(s) for %'')"

definition py_int_truediv_object :: "int option \<Rightarrow> AlazarParameter \<Rightarrow> error + int" where
  "py_int_truediv_object x p = Inl (TypeError ''unsupported operand type(s) for /'')"

definition rounding_warning :: string where
  "rounding_warning =
     ''buffers_per_acquisition is not a divisor of samples per record which it should be in'' @
     '' TS mode, rounding down in samples per buffer calculation''"

definition before_async_read_ts :: "driver \<Rightarrow> int option \<Rightarrow> unit act" where
  "before_async_read_ts drv flags =
     bindE (param_get_byte ''samples_per_record'') (\<lambda>x.
     bindE (lookup_param ''buffers_per_acquisition'') (\<lambda>p.
     bindE (liftE (py_mod_object x p)) (\<lambda>r.
     thenE (if \<not> r = 0 then log_warning rounding_warning else returnE ()) (
     bindE (param_get_byte ''samples_per_record'') (\<lambda>x'.
     bindE (lookup_param ''buffers_per_acquisition'') (\<lambda>p'.
     bindE (liftE (py_int_truediv_object x' p')) (\<lambda>samples_per_buffer.
     bindE (param_get_byte ''buffers_per_acquisition'') (\<lambda>bpa.
     bindE (param_get_byte ''records_per_buffer'') (\<lambda>rpb0.
     thenE (if \<not> rpb0 = Some 1
            then thenE (log_warning ''records_per_buffer should be 1 in TS mode, defauling to 1'')
                       (param_set ''records_per_buffer'' (PInt 1))
            else returnE ()) (
     bindE (param_get_byte ''records_per_buffer'') (\<lambda>rpb.
     bindE (param_get_byte ''channel_selection'') (\<lambda>cs.
     bindE (param_get_byte ''transfer_offset'') (\<lambda>off.
     dll_checked drv ''AlazarBeforeAsyncRead''
       (map carg_of [cs, off, Some samples_per_buffer, rpb, bpa, flags])
       ''AlazarBeforeAsyncRead'')))))))))))))"

text \<open>
  From the mode check to the last \<open>_set_updated()\<close>. The commits use the key
  \<open>'external_starcapture'\<close>.
\<close>

definition acquire_prepare :: "driver \<Rightarrow> unit act" where
  "acquire_prepare drv =
     bindE (bindE (mode_is ''TS'') (\<lambda>ts. if ts then returnE True else mode_is ''NPT'')) (\<lambda>supported.
     if \<not> supported then raiseE (Exception unsupported_mode_message) else
     thenE (dll_checked drv ''AlazarAbortAsyncRead'' [] ''AlazarAbortAsyncRead'') (
     bindE (get_channel_info drv) (\<lambda>(max_s, bps).
     if \<not> bps = 8 then raiseE (Exception ''Only 8 bits per sample supported at this moment'') else
     thenE (bindE (mode_is ''NPT'') (\<lambda>npt. if npt then set_record_size drv else returnE ())) (
     bindE (param_get_byte ''channel_selection'') (\<lambda>cs.
     let number_of_channels = (if cs = Some 3 then 2 else 1 :: int); samples_per_buffer = (0 :: int) in
     bindE acquire_flags (\<lambda>flags.
     thenE (bindE (mode_is ''NPT'') (\<lambda>npt.
              if npt then before_async_read_npt drv flags
              else bindE (mode_is ''TS'') (\<lambda>ts.
                     if ts then before_async_read_ts drv flags else returnE ())))
           (seqE (map param_set_updated
              [''samples_per_record'', ''records_per_buffer'', ''buffers_per_acquisition'',
               ''channel_selection'', ''transfer_offset'', ''mode'', ''external_starcapture'',
               ''enable_record_headers'', ''alloc_buffers'', ''fifo_only_streaming'',
               ''interleave_samples'', ''get_processed_data'']))))))))"

text \<open>
  \<open>buf.size_bytes\<close>: \<open>Buffer.__init__\<close> keeps the size in a local variable only, so the
  object has no such attribute.
\<close>

definition buffer_size_bytes :: "Buffer \<Rightarrow> int act" where
  "buffer_size_bytes b = raiseE (AttributeError ''size_bytes'')"

definition post_buffer :: "driver \<Rightarrow> Buffer \<Rightarrow> unit act" where
  "post_buffer drv b =
     bindE (buffer_size_bytes b) (\<lambda>n.
     dll_checked drv ''AlazarPostAsyncBuffer'' [CInt (addr b), CInt n] ''AlazarPostAsyncBuffer'')"

fun post_buffers :: "driver \<Rightarrow> Buffer list \<Rightarrow> unit act" where
  "post_buffers drv [] = returnE ()"
| "post_buffers drv (b # bs) = thenE (post_buffer drv b) (post_buffers drv bs)"

definition get_buflist :: "Buffer list act" where
  "get_buflist = (\<lambda>s. case buflist s of
                        None \<Rightarrow> (Inl (AttributeError ''buflist''), s)
                      | Some bs \<Rightarrow> (Inr bs, s))"

definition get_waittimeout :: "int act" where
  "get_waittimeout = (\<lambda>s. case waittimeout s of
                            None \<Rightarrow> (Inl (AttributeError ''waittimeout''), s)
                          | Some t \<Rightarrow> (Inr t, s))"

text \<open>
  \<open>for buf in self.buflist: ...\<close> and \<open>AlazarStartCapture\<close>. The result is the binding
  the loop leaves in \<open>buf\<close>: the last buffer, or none when the list was empty.
\<close>

definition acquire_arm :: "driver \<Rightarrow> Buffer option act" where
  "acquire_arm drv =
     bindE get_buflist (\<lambda>bs.
     thenE (post_buffers drv bs) (
     thenE (dll_checked drv ''AlazarStartCapture'' [] ''AlazarStartCapture'')
           (returnE (if bs = [] then None else Some (last bs)))))"

text \<open>
  The names the module binds at top level. \<open>BuffersCompleted\<close> and
  \<open>BuffersPerAcquisition\<close> are assigned nowhere in \<open>acquire\<close>, so the condition of the
  \<open>while\<close> loop reads them as globals; a global that is not bound (and is no builtin)
  raises \<open>NameError\<close>. The bound ones are modules and classes, which \<open><\<close> does not order.
\<close>

definition module_globals :: "string list" where
  "module_globals = [''ctypes'', ''logging'', ''np'', ''os'', ''Instrument'', ''Parameter'',
                     ''AlazarTech_ATS'', ''AlazarParameter'', ''Buffer'']"

definition load_global :: "string \<Rightarrow> string act" where
  "load_global n =
     (if n \<in> set module_globals then returnE n
      else raiseE (NameError (''name '' @ n @ '' is not defined'')))"

definition loop_condition :: "bool act" where
  "loop_condition =
     bindE (load_global ''BuffersCompleted'') (\<lambda>x.
     bindE (load_global ''BuffersPerAcquisition'') (\<lambda>y.
     raiseE (TypeError ''unsupported operand type(s) for <'')))"

definition loop_body :: "driver \<Rightarrow> Buffer option \<Rightarrow> unit act" where
  "loop_body drv buf =
     bindE (case buf of None \<Rightarrow> raiseE (NameError ''buf'') | Some b \<Rightarrow> returnE b) (\<lambda>b.
     bindE get_waittimeout (\<lambda>t.
     thenE (dll_checked drv ''AlazarWaitAsyncBufferComplete'' [CInt (addr b), CInt t]
              ''AlazarWaitAsyncBufferComplete'')
           (post_buffer drv b)))"

text \<open>The \<open>while\<close> loop; \<open>None\<close> stands for a loop that never ends.\<close>

partial_function (option) capture_loop ::
  "driver \<Rightarrow> Buffer option \<Rightarrow> ATS \<Rightarrow> ((error + unit) \<times> ATS) option" where
  "capture_loop drv buf s =
     (case loop_condition s of
        (Inl e, s1) \<Rightarrow> Some (Inl e, s1)
      | (Inr continue, s1) \<Rightarrow>
          if \<not> continue then Some (Inr (), s1)
          else (case loop_body drv buf s1 of
                  (Inl e, s2) \<Rightarrow> Some (Inl e, s2)
                | (Inr _, s2) \<Rightarrow> capture_loop drv buf s2))"

text \<open>Everything \<open>acquire\<close> does before the \<open>while\<close> loop.\<close>

definition acquire_until_loop :: "driver \<Rightarrow> acquire_args \<Rightarrow> Buffer option act" where
  "acquire_until_loop drv a =
     thenE (acquire_set_args a) (thenE (acquire_prepare drv) (acquire_arm drv))"

definition acquire :: "driver \<Rightarrow> acquire_args \<Rightarrow> ATS \<Rightarrow> ((error + unit) \<times> ATS) option" where
  "acquire drv a s =
     (case acquire_until_loop drv a s of
        (Inl e, s1) \<Rightarrow> Some (Inl e, s1)
      | (Inr buf, s1) \<Rightarrow>
          (case capture_loop drv buf s1 of
             None \<Rightarrow> None
           | Some (Inl e, s2) \<Rightarrow> Some (Inl e, s2)
           | Some (Inr _, s2) \<Rightarrow>
               Some (dll_checked drv ''AlazarAbortAsyncRead'' [] ''AlazarAbortAsyncRead'' s2)))"

section \<open>\<open>Buffer\<close>\<close>

text \<open>
  The host: \<open>os.name\<close>, the answer of \<open>VirtualAlloc\<close> to a request of a given size (an
  address, or \<open>None\<close> for a null pointer) and the value of \<open>GetLastError\<close>.
\<close>

record host =
  os_name :: string
  VirtualAlloc :: "int \<Rightarrow> int option"
  GetLastError :: int

text \<open>
  \<open>ctypes.c_long(n)\<close> on Windows, the only host the constructor accepts: a signed 32-bit
  integer, built without overflow checking.
\<close>

definition c_long :: "int \<Rightarrow> int" where
  "c_long n = sint (word_of_int n :: 32 word)"

text \<open>
  \<open>Buffer.__init__\<close>: the outcome, and the sizes requested from \<open>VirtualAlloc\<close> in order.
\<close>

definition Buffer_init :: "host \<Rightarrow> int \<Rightarrow> int \<Rightarrow> int \<Rightarrow> (error + Buffer) \<times> int list" where
  "Buffer_init h bits_per_sample samples_per_buffer number_of_channels =
     (if \<not> bits_per_sample = 8 then
        (Inl (Exception ''Buffer: only 8 bit per sample supported''), [])
      else if \<not> os_name h = ''nt'' then
        (Inl (Exception ''Buffer: only Windows supported at this moment''), [])
      else
        let size_bytes = samples_per_buffer * number_of_channels;
            request = c_long size_bytes
        in case VirtualAlloc h request of
             None \<Rightarrow>
               (Inl (Exception (''Memory allocation error: '' @ str_int (GetLastError h))),
                [request])
           | Some a \<Rightarrow>
               if size_bytes < 0 then
                 (Inl (ValueError ''Array length must be >= 0''), [request])
               else
                 (Inr \<lparr>allocated = True, addr = a, buffer_len = size_bytes\<rparr>, [request]))"

section \<open>Observations and invariants\<close>

text \<open>The device code a parameter of the instrument holds (none when the key is absent).\<close>

definition code_of :: "ATS \<Rightarrow> string \<Rightarrow> int option" where
  "code_of s key = (case parameters s key of None \<Rightarrow> None | Some p \<Rightarrow> byte p)"

text \<open>Whether a parameter of the instrument is present and committed (its flag is set).\<close>

definition committed :: "ATS \<Rightarrow> string \<Rightarrow> bool" where
  "committed s key = (case parameters s key of None \<Rightarrow> False | Some p \<Rightarrow> uptodate_flag p)"

text \<open>
  A statement keeps an invariant of the instrument, whether it raises or returns, and
  what it returns satisfies a postcondition.
\<close>

definition keeps :: "(ATS \<Rightarrow> bool) \<Rightarrow> 'a act \<Rightarrow> ('a \<Rightarrow> bool) \<Rightarrow> bool" where
  "keeps I m R \<longleftrightarrow> (\<forall>s r s'. I s \<longrightarrow> m s = (r, s') \<longrightarrow> I s' \<and> (\<forall>x. r = Inr x \<longrightarrow> R x))"






text \<open>
  The driver calls made between two states of the instrument; a call of a step of
  \<open>config\<close> that received the codes the fields of the step hold and returned the success
  code; and the property that every parameter committed in the second state and not in
  the first is a field of a step with such a call among the calls made in between.
\<close>

definition new_calls :: "ATS \<Rightarrow> ATS \<Rightarrow> dll_call list" where
  "new_calls s s' = drop (length (calls s)) (calls s')"

definition consumed_by :: "driver \<Rightarrow> ATS \<Rightarrow> device_step \<Rightarrow> dll_call \<Rightarrow> bool" where
  "consumed_by drv s g c \<longleftrightarrow>
     fname c = step_fname g \<and>
     marshal_all (c_long_bits drv)
       (CInt (handle s) # step_leading g @ map (\<lambda>k. carg_of (code_of s k)) (step_fields g)) =
       Inr (args c) \<and>
     ret c = succes"

definition commits_follow_calls :: "driver \<Rightarrow> device_step list \<Rightarrow> ATS \<Rightarrow> ATS \<Rightarrow> bool" where
  "commits_follow_calls drv gs s s' \<longleftrightarrow>
     (\<forall>k. committed s' k \<and> \<not> committed s k \<longrightarrow>
        (\<exists>g \<in> set gs. k \<in> set (step_fields g) \<and>
           (\<exists>c \<in> set (new_calls s s'). consumed_by drv s' g c)))"

section \<open>An example instrument\<close>

text \<open>
  Concrete inputs at which the model is evaluated: a parameter with the given committed
  code and table, an instrument holding every parameter \<open>acquire\<close> reads (committed mode
  \<open>'NPT'\<close>, an empty buffer list), a driver that answers every call with the success
  code and reports 8 bits per sample, and a Windows host.
\<close>

definition example_parameter :: "string \<Rightarrow> int \<Rightarrow> (int \<times> pyval) list \<Rightarrow> AlazarParameter" where
  "example_parameter nm b d =
     \<lparr>pname = PStr nm, byte = Some b, uptodate_flag = True,
      byte_to_value_dict = d, value_to_byte_dict = map (\<lambda>(k, v). (v, k)) d\<rparr>"

definition example_mode :: AlazarParameter where
  "example_mode = example_parameter ''mode'' 512 [(512, PStr ''NPT''), (1024, PStr ''TS'')]"

definition example_parameters :: "(string \<times> AlazarParameter) list" where
  "example_parameters =
     [(''mode'', example_mode),
      (''samples_per_record'',
         example_parameter ''samples_per_record'' 1024 [(1024, PInt 1024), (1000, PInt 1000)]),
      (''records_per_buffer'',
         example_parameter ''records_per_buffer'' 4 [(4, PInt 4), (1, PInt 1), (5, PInt 5)]),
      (''buffers_per_acquisition'',
         example_parameter ''buffers_per_acquisition'' 10 [(10, PInt 10), (3, PInt 3)]),
      (''channel_selection'',
         example_parameter ''channel_selection'' 3 [(1, PStr ''A''), (2, PStr ''B''), (3, PStr ''AB'')]),
      (''transfer_offset'', example_parameter ''transfer_offset'' 0 [(0, PInt 0)]),
      (''external_startcapture'',
         example_parameter ''external_startcapture'' 1 [(0, PStr ''DISABLED''), (1, PStr ''ENABLED'')]),
      (''external_starcapture'',
         example_parameter ''external_starcapture'' 1 [(0, PStr ''DISABLED''), (1, PStr ''ENABLED'')]),
      (''enable_record_headers'',
         example_parameter ''enable_record_headers'' 0 [(0, PStr ''DISABLED''), (8, PStr ''ENABLED'')]),
      (''alloc_buffers'',
         example_parameter ''alloc_buffers'' 0 [(0, PStr ''DISABLED''), (32, PStr ''ENABLED'')]),
      (''fifo_only_streaming'',
         example_parameter ''fifo_only_streaming'' 0 [(0, PStr ''DISABLED''), (2048, PStr ''ENABLED'')]),
      (''interleave_samples'',
         example_parameter ''interleave_samples'' 0 [(0, PStr ''DISABLED''), (8192, PStr ''ENABLED'')]),
      (''get_processed_data'',
         example_parameter ''get_processed_data'' 0 [(0, PStr ''DISABLED''), (16384, PStr ''ENABLED'')])]"

definition example_ats :: ATS where
  "example_ats =
     \<lparr>parameters = map_of example_parameters, handle = 1, buflist = Some [],
      waittimeout = Some 1000, calls = [], warnings = []\<rparr>"

definition example_driver :: driver where
  "example_driver =
     \<lparr>status_of = (\<lambda>history f xs. 512), channel_info = (\<lambda>history. (268435456, 8)),
      c_long_bits = 32\<rparr>"

definition no_acquire_args :: acquire_args where
  "no_acquire_args =
     \<lparr>mode = PNone, samples_per_record = PNone, records_per_buffer = PNone,
      buffers_per_acquisition = PNone, channel_selection = PNone, transfer_offset = PNone,
      external_startcapture = PNone, enable_record_headers = PNone, alloc_buffers = PNone,
      fifo_only_streaming = PNone, interleave_samples = PNone, get_processed_data = PNone\<rparr>"

definition example_host :: host where
  "example_host =
     \<lparr>os_name = ''nt'', VirtualAlloc = (\<lambda>n. if 0 < n then Some 65536 else None), GetLastError = 8\<rparr>"

text \<open>
  The same instrument with the committed mode \<open>'TS'\<close>, 1000 samples per record and 3
  buffers per acquisition, and with a committed mode \<open>'CS'\<close> that the table of the mode
  parameter holds but \<open>acquire\<close> does not implement.
\<close>

definition example_ats_ts :: ATS where
  "example_ats_ts =
     example_ats\<lparr>parameters := map_of
       ([(''mode'', example_parameter ''mode'' 1024 [(512, PStr ''NPT''), (1024, PStr ''TS'')]),
         (''samples_per_record'',
            example_parameter ''samples_per_record'' 1000 [(1024, PInt 1024), (1000, PInt 1000)]),
         (''buffers_per_acquisition'',
            example_parameter ''buffers_per_acquisition'' 3 [(10, PInt 10), (3, PInt 3)])]
        @ example_parameters)\<rparr>"

definition example_ats_cs :: ATS where
  "example_ats_cs =
     example_ats\<lparr>parameters := map_of
       ((''mode'', example_parameter ''mode'' 256
                    [(256, PStr ''CS''), (512, PStr ''NPT''), (1024, PStr ''TS'')])
        # example_parameters)\<rparr>"

text \<open>
  An instrument holding every parameter \<open>config\<close> reads, all committed; a driver that
  refuses \<open>AlazarSetTriggerOperation\<close> with the code 513 and accepts every other call;
  and a call of \<open>config\<close> that gives the clock source and the trigger delay.
\<close>

definition config_parameters :: "(string \<times> AlazarParameter) list" where
  "config_parameters =
     (''clock_source'',
        example_parameter ''clock_source'' 1
          [(1, PStr ''INTERNAL_CLOCK''), (2, PStr ''FAST_EXTERNAL_CLOCK'')]) #
     (''trigger_delay'', example_parameter ''trigger_delay'' 0 [(0, PInt 0), (5, PInt 5)]) #
     map (\<lambda>k. (k, example_parameter k 0 [(0, PInt 0)]))
       [''sample_rate'', ''clock_edge'', ''decimation'',
        ''coupling1'', ''range1'', ''impedence1'', ''bwlimit1'',
        ''coupling2'', ''range2'', ''impedence2'', ''bwlimit2'',
        ''trigger_operation'',
        ''trigger_engine1'', ''trigger_source1'', ''trigger_slope1'', ''trigger_level1'',
        ''trigger_engine2'', ''trigger_source2'', ''trigger_slope2'', ''trigger_level2'',
        ''external_trigger_coupling'', ''trigger_range'', ''timeout_ticks'']"

definition example_config_ats :: ATS where
  "example_config_ats = example_ats\<lparr>parameters := map_of config_parameters\<rparr>"

definition failing_driver :: driver where
  "failing_driver =
     \<lparr>status_of = (\<lambda>history f xs. if f = ''AlazarSetTriggerOperation'' then 513 else 512),
      channel_info = (\<lambda>history. (268435456, 8)), c_long_bits = 32\<rparr>"

definition no_config_args :: config_args where
  "no_config_args =
     \<lparr>clock_source = PNone, sample_rate = PNone, clock_edge = PNone, decimation = PNone,
      coupling = None, channel_range = None, impedence = None, bwlimit = None,
      trigger_operation = PNone,
      trigger_engine1 = PNone, trigger_source1 = PNone, trigger_slope1 = PNone, trigger_level1 = PNone,
      trigger_engine2 = PNone, trigger_source2 = PNone, trigger_slope2 = PNone, trigger_level2 = PNone,
      external_trigger_coupling = PNone, trigger_range = PNone, trigger_delay = PNone,
      timeout_ticks = PNone\<rparr>"

definition example_config_args :: config_args where
  "example_config_args =
     no_config_args\<lparr>clock_source := PStr ''FAST_EXTERNAL_CLOCK'', trigger_delay := PInt 5\<rparr>"

section \<open>Running statements\<close>

lemma returnE_apply [simp]: "returnE x s = (Inr x, s)"
  by (simp add: returnE_def)

lemma raiseE_apply [simp]: "raiseE e s = (Inl e, s)"
  by (simp add: raiseE_def)

lemma liftE_apply [simp]: "liftE r s = (r, s)"
  by (simp add: liftE_def)

lemma bindE_Inl [simp]: "m s = (Inl e, s') \<Longrightarrow> bindE m f s = (Inl e, s')"
  by (simp add: bindE_def)

lemma bindE_Inr [simp]: "m s = (Inr x, s') \<Longrightarrow> bindE m f s = f x s'"
  by (simp add: bindE_def)

lemma thenE_Inl [simp]: "m s = (Inl e, s') \<Longrightarrow> thenE m n s = (Inl e, s')"
  by (simp add: thenE_def)

lemma thenE_Inr [simp]: "m s = (Inr x, s') \<Longrightarrow> thenE m n s = n s'"
  by (simp add: thenE_def)

lemma lookup_param_Some [simp]:
  "parameters s key = Some p \<Longrightarrow> lookup_param key s = (Inr p, s)"
  by (simp add: lookup_param_def)

lemma lookup_param_None [simp]:
  "parameters s key = None \<Longrightarrow> lookup_param key s = (Inl (KeyError key), s)"
  by (simp add: lookup_param_def)

section \<open>The parameter object\<close>

text \<open>
  Claim C7. For every parameter and every value that is not a key of its
  \<open>_value_to_byte_dict\<close>, \<open>_set\<close> raises a \<open>KeyError\<close> whose message contains the rejected
  value and the name of the parameter, and leaves the parameter as it was (code and
  staleness flag included). Called through the instrument, the whole instrument state is
  unchanged, the record of driver calls with it: no driver call is made.
\<close>

theorem set_rejects_unknown_value:
  assumes "map_of (value_to_byte_dict p) v = None"
  shows "AlazarParameter_set p v = (Inl (KeyError (unknown_setting_message v (pname p))), p)
       \<and> (\<exists>a b c. unknown_setting_message v (pname p) = a @ py_str v @ b @ py_str (pname p) @ c)
       \<and> (parameters s key = Some p \<longrightarrow>
            param_set key v s = (Inl (KeyError (unknown_setting_message v (pname p))), s))"
proof -
  have 1: "AlazarParameter_set p v = (Inl (KeyError (unknown_setting_message v (pname p))), p)"
    using assms by (simp add: AlazarParameter_set_def)
  have 2: "\<exists>a b c. unknown_setting_message v (pname p) = a @ py_str v @ b @ py_str (pname p) @ c"
    unfolding unknown_setting_message_def by (metis append.assoc)
  have 3: "param_set key v s = (Inl (KeyError (unknown_setting_message v (pname p))), s)"
    if "parameters s key = Some p"
  proof -
    have "(parameters s)(key \<mapsto> p) = parameters s"
      using that by (simp add: map_upd_triv)
    then show ?thesis
      using that 1 by (simp add: param_set_def)
  qed
  from 1 2 3 show ?thesis by blast
qed

theorem set_rejects_unknown_value_witness:
  "AlazarParameter_set example_mode (PStr ''CS'') =
     (Inl (KeyError (''Value '' @ [CHR 0x22] @ ''CS'' @ [CHR 0x22] @
                     '' unknown setting in parameter '' @ [CHR 0x22] @ ''mode'' @ [CHR 0x22])),
      example_mode)
   \<and> param_set ''mode'' (PStr ''CS'') example_ats =
     (Inl (KeyError (''Value '' @ [CHR 0x22] @ ''CS'' @ [CHR 0x22] @
                     '' unknown setting in parameter '' @ [CHR 0x22] @ ''mode'' @ [CHR 0x22])),
      example_ats)"
proof -
  have h: "map_of (value_to_byte_dict example_mode) (PStr ''CS'') = None"
    by (simp add: example_mode_def example_parameter_def)
  have k: "parameters example_ats ''mode'' = Some example_mode"
    by (simp add: example_ats_def example_parameters_def)
  have n: "pname example_mode = PStr ''mode''"
    by (simp add: example_mode_def example_parameter_def)
  from set_rejects_unknown_value [OF h, of example_ats "''mode''"] k n
  show ?thesis by (simp add: unknown_setting_message_def)
qed

text \<open>
  Claim C10. After a \<open>_set\<close> that accepted its value and before \<open>_set_updated\<close>, \<open>get\<close>
  raises the exception for a stale parameter, while \<open>_get_byte\<close> returns the new device
  code, with no check of the flag. After \<open>_set_updated\<close> the exception for a stale
  parameter is no longer raised.
\<close>

theorem get_raises_between_set_and_set_updated:
  assumes "AlazarParameter_set p v = (Inr (), p')"
  shows "AlazarParameter_get p' = Inl (Exception stale_message)
       \<and> AlazarParameter_get_byte p' = map_of (value_to_byte_dict p) v
       \<and> AlazarParameter_get_byte p' \<noteq> None
       \<and> AlazarParameter_get (AlazarParameter_set_updated p') \<noteq> Inl (Exception stale_message)"
  using assms
  by (auto simp: AlazarParameter_set_def AlazarParameter_get_def AlazarParameter_get_byte_def
      AlazarParameter_set_updated_def split: option.splits)

theorem get_raises_between_set_and_set_updated_witness:
  "AlazarParameter_set example_mode (PStr ''TS'') =
     (Inr (), example_mode\<lparr>byte := Some 1024, uptodate_flag := False\<rparr>)
   \<and> AlazarParameter_get (example_mode\<lparr>byte := Some 1024, uptodate_flag := False\<rparr>) =
       Inl (Exception stale_message)
   \<and> AlazarParameter_get_byte (example_mode\<lparr>byte := Some 1024, uptodate_flag := False\<rparr>) =
       Some 1024"
proof -
  have h: "AlazarParameter_set example_mode (PStr ''TS'') =
     (Inr (), example_mode\<lparr>byte := Some 1024, uptodate_flag := False\<rparr>)"
    by (simp add: AlazarParameter_set_def example_mode_def example_parameter_def)
  have v: "map_of (value_to_byte_dict example_mode) (PStr ''TS'') = Some 1024"
    by (simp add: example_mode_def example_parameter_def)
  from get_raises_between_set_and_set_updated [OF h] h v show ?thesis by simp
qed

text \<open>
  The methods alone do round-trip: on any parameter object, \<open>_set\<close> of a value that
  \<open>_value_to_byte_dict\<close> maps, followed by \<open>_set_updated\<close>, leaves the flag set and the
  mapped code in \<open>_byte\<close>.
\<close>

lemma set_then_set_updated:
  assumes "map_of (value_to_byte_dict p) v = Some b"
  shows "\<exists>p'. AlazarParameter_set p v = (Inr (), p')
       \<and> uptodate_flag (AlazarParameter_set_updated p')
       \<and> AlazarParameter_get_byte (AlazarParameter_set_updated p') = Some b"
  using assms
  by (simp add: AlazarParameter_set_def AlazarParameter_set_updated_def
      AlazarParameter_get_byte_def)

lemma init_never_returns: "AlazarParameter_init nm v d \<noteq> Inr p"
proof (cases d)
  case None
  then show ?thesis by (simp add: AlazarParameter_init_def)
next
  case (Some xs)
  then show ?thesis
    by (cases xs) (simp_all add: AlazarParameter_init_def AlazarParameter_set_def unpack_key_def)
qed

text \<open>
  Claim C8. The constructor never returns a parameter: with a table of device codes it
  raises \<open>TypeError\<close> while it builds \<open>_value_to_byte_dict\<close>, because the comprehension
  iterates over the codes instead of the items of the table (with an empty table the
  closing \<open>_set\<close> rejects the initial value). So no field with a code table exists on
  which the round trip could be performed.
\<close>

theorem init_fails_on_code_table:
  "(\<forall>nm v d p. AlazarParameter_init nm v d \<noteq> Inr p)
   \<and> AlazarParameter_init (PStr ''mode'') (PStr ''NPT'')
       (Some [(512, PStr ''NPT''), (1024, PStr ''TS'')]) =
     Inl (TypeError ''cannot unpack non-iterable int object'')"
  by (simp add: init_never_returns) (simp add: AlazarParameter_init_def unpack_key_def)

section \<open>The status codes\<close>

lemma error_codes_keys: "map fst error_codes = [513..591]"
  by code_simp

lemma error_codes_known:
  "(\<exists>msg. map_of error_codes code = Some msg) \<longleftrightarrow> 513 \<le> code \<and> code \<le> 591"
proof -
  have "(map_of error_codes code = None) \<longleftrightarrow> code \<notin> set (map fst error_codes)"
    by (simp add: map_of_eq_None_iff)
  also have "\<dots> \<longleftrightarrow> \<not> (513 \<le> code \<and> code \<le> 591)"
    by (simp only: error_codes_keys set_upto atLeastAtMost_iff)
  finally show ?thesis by auto
qed

text \<open>
  Claim C5. \<open>_result_handler\<close> returns normally on the success code 512; on every code of
  the table (the codes 513 to 591, none of them the success code) it raises an
  \<open>Exception\<close> whose message is the name of the operation, the code and the message of the
  table; on every other code it raises a \<open>KeyError\<close>, a different exception, that names
  the operation and the code. No code but 512 returns normally.
\<close>

theorem result_handler_classifies:
  "result_handler succes src = Inr ()
   \<and> (\<forall>code msg. map_of error_codes code = Some msg \<longrightarrow>
         code \<noteq> succes \<and>
         result_handler code src = Inl (Exception (src @ '' raised '' @ str_int code @ '': '' @ msg)))
   \<and> (\<forall>code. code \<noteq> succes \<and> map_of error_codes code = None \<longrightarrow>
         result_handler code src = Inl (KeyError (src @ '' raised unknown error '' @ str_int code)))
   \<and> (\<forall>code. (\<exists>msg. map_of error_codes code = Some msg) \<longleftrightarrow> 513 \<le> code \<and> code \<le> 591)"
proof -
  have known: "code \<noteq> succes" if "map_of error_codes code = Some msg" for code msg
    using error_codes_known [of code] that by (auto simp: succes_def)
  show ?thesis
    using known error_codes_known by (auto simp: result_handler_def)
qed

lemma error_codes_579:
  "map_of error_codes 579 =
     Some ''ApiWaitTimeout: operation did not finish during timeout interval. Check your trigger.''"
  by code_simp

theorem result_handler_classifies_witness:
  "result_handler 579 ''AlazarWaitAsyncBufferComplete'' =
     Inl (Exception ''AlazarWaitAsyncBufferComplete raised 579: ApiWaitTimeout: operation did not finish during timeout interval. Check your trigger.'')
   \<and> result_handler 600 ''AlazarStartCapture'' =
     Inl (KeyError ''AlazarStartCapture raised unknown error 600'')"
proof -
  have b: "(600::int) \<noteq> succes \<and> map_of error_codes 600 = None"
    using error_codes_known [of 600] by (auto simp: succes_def)
  have c: "str_int 579 = ''579''" "str_int 600 = ''600''"
    by (simp_all add: str_int_def str_nat.simps digit_char_def)
  from result_handler_classifies [of "''AlazarWaitAsyncBufferComplete''"] error_codes_579 c
  have 1: "result_handler 579 ''AlazarWaitAsyncBufferComplete'' =
     Inl (Exception ''AlazarWaitAsyncBufferComplete raised 579: ApiWaitTimeout: operation did not finish during timeout interval. Check your trigger.'')"
    by simp
  from result_handler_classifies [of "''AlazarStartCapture''"] b c
  have 2: "result_handler 600 ''AlazarStartCapture'' =
     Inl (KeyError ''AlazarStartCapture raised unknown error 600'')"
    by simp
  from 1 2 show ?thesis by simp
qed

section \<open>The capture loop\<close>

text \<open>
  The condition of the \<open>while\<close> loop reads \<open>BuffersCompleted\<close> first. The name is bound
  nowhere, so the first test of the condition raises, before any wait for a buffer.
\<close>

lemma capture_loop_raises:
  "capture_loop drv buf s = Some (Inl (NameError ''name BuffersCompleted is not defined''), s)"
  by (subst capture_loop.simps) (simp add: loop_condition_def load_global_def module_globals_def)

text \<open>
  \<open>acquire\<close> always ends, and always by an exception: the one raised before the loop, or
  the \<open>NameError\<close> of the loop condition. The statements after the loop are not reached.
\<close>

lemma acquire_result:
  "acquire drv a s =
     (case acquire_until_loop drv a s of
        (Inl e, s1) \<Rightarrow> Some (Inl e, s1)
      | (Inr buf, s1) \<Rightarrow> Some (Inl (NameError ''name BuffersCompleted is not defined''), s1))"
  by (simp add: acquire_def capture_loop_raises split: prod.splits sum.splits)

text \<open>The example instrument (committed mode \<open>'NPT'\<close>) up to the loop.\<close>

lemma pre_npt:
  "(case acquire_until_loop example_driver no_acquire_args example_ats of
      (r, s) \<Rightarrow> (r, calls s, warnings s)) =
   (Inr None,
    [\<lparr>fname = ''AlazarAbortAsyncRead'', args = [CInt 1], ret = 512\<rparr>,
     \<lparr>fname = ''AlazarGetChannelInfo'', args = [CInt 1, CPtr ''max_s'', CPtr ''bps''], ret = 512\<rparr>,
     \<lparr>fname = ''AlazarSetRecordSize'', args = [CInt 1, CInt 0, CInt 1024], ret = 512\<rparr>,
     \<lparr>fname = ''AlazarBeforeAsyncRead'',
       args = [CInt 1, CInt 3, CInt 0, CInt 1024, CInt 4, CInt 40, CInt 513], ret = 512\<rparr>,
     \<lparr>fname = ''AlazarStartCapture'', args = [CInt 1], ret = 512\<rparr>], [])"
  by code_simp

text \<open>
  Claim C1. Whatever the driver, the buffer and the instrument, the capture loop ends at
  the first test of its condition with \<open>NameError\<close>, the instrument unchanged: no wait, no
  repost, no completion counter. So \<open>acquire\<close> never returns normally, and the
  \<open>AlazarAbortAsyncRead\<close> that follows the loop is never called: on the example
  instrument, with a driver that accepts every call, the last driver call of \<open>acquire\<close>
  is \<open>AlazarStartCapture\<close>, and the device is left armed.
\<close>

theorem capture_loop_fails_at_first_test:
  "capture_loop drv buf s = Some (Inl (NameError ''name BuffersCompleted is not defined''), s)
   \<and> acquire drv a s \<noteq> None
   \<and> acquire drv a s \<noteq> Some (Inr (), s')
   \<and> map_option (\<lambda>(r, s). (r, map fname (calls s)))
        (acquire example_driver no_acquire_args example_ats) =
      Some (Inl (NameError ''name BuffersCompleted is not defined''),
            [''AlazarAbortAsyncRead'', ''AlazarGetChannelInfo'', ''AlazarSetRecordSize'',
             ''AlazarBeforeAsyncRead'', ''AlazarStartCapture''])"
proof -
  have 1: "acquire drv a s \<noteq> None" "acquire drv a s \<noteq> Some (Inr (), s')"
    by (simp_all add: acquire_result split: prod.splits sum.splits)
  have 2: "map_option (\<lambda>(r, s). (r, map fname (calls s)))
        (acquire example_driver no_acquire_args example_ats) =
      Some (Inl (NameError ''name BuffersCompleted is not defined''),
            [''AlazarAbortAsyncRead'', ''AlazarGetChannelInfo'', ''AlazarSetRecordSize'',
             ''AlazarBeforeAsyncRead'', ''AlazarStartCapture''])"
    using pre_npt by (simp add: acquire_result split: prod.splits sum.splits)
  from capture_loop_raises 1 2 show ?thesis by simp
qed

section \<open>The mode \<open>'TS'\<close>\<close>

text \<open>
  The branch for the mode \<open>'TS'\<close> raises at its first statement, the test of the
  remainder, before it logs a warning, changes a parameter or calls the driver.
\<close>

lemma before_async_read_ts_raises:
  "before_async_read_ts drv flags s =
     (case parameters s ''samples_per_record'' of
        None \<Rightarrow> (Inl (KeyError ''samples_per_record''), s)
      | Some _ \<Rightarrow>
          (case parameters s ''buffers_per_acquisition'' of
             None \<Rightarrow> (Inl (KeyError ''buffers_per_acquisition''), s)
           | Some _ \<Rightarrow> (Inl (TypeError ''unsupported operand type(s) for %''), s)))"
  by (simp add: before_async_read_ts_def param_get_byte_def py_mod_object_def
      split: option.splits)

lemma pre_ts:
  "(case acquire_until_loop example_driver no_acquire_args example_ats_ts of
      (r, s) \<Rightarrow> (r, calls s, warnings s)) =
   (Inl (TypeError ''unsupported operand type(s) for %''),
    [\<lparr>fname = ''AlazarAbortAsyncRead'', args = [CInt 1], ret = 512\<rparr>,
     \<lparr>fname = ''AlazarGetChannelInfo'', args = [CInt 1, CPtr ''max_s'', CPtr ''bps''], ret = 512\<rparr>],
    [])"
  by code_simp

text \<open>
  Claim C4. In the mode \<open>'TS'\<close> no number of samples per buffer is computed: the remainder
  and the quotient are taken against the parameter object \<open>buffers_per_acquisition\<close>
  instead of its code, which raises \<open>TypeError\<close>. On an instrument with the committed mode
  \<open>'TS'\<close>, 1000 samples per record and 3 buffers per acquisition, \<open>acquire\<close> raises after
  \<open>AlazarGetChannelInfo\<close>: no warning is logged and \<open>AlazarBeforeAsyncRead\<close> is not called.
\<close>

theorem ts_branch_raises:
  "before_async_read_ts drv flags s =
     (case parameters s ''samples_per_record'' of
        None \<Rightarrow> (Inl (KeyError ''samples_per_record''), s)
      | Some _ \<Rightarrow>
          (case parameters s ''buffers_per_acquisition'' of
             None \<Rightarrow> (Inl (KeyError ''buffers_per_acquisition''), s)
           | Some _ \<Rightarrow> (Inl (TypeError ''unsupported operand type(s) for %''), s)))
   \<and> map_option (\<lambda>(r, s). (r, map fname (calls s), warnings s))
        (acquire example_driver no_acquire_args example_ats_ts) =
      Some (Inl (TypeError ''unsupported operand type(s) for %''),
            [''AlazarAbortAsyncRead'', ''AlazarGetChannelInfo''], [])"
proof -
  have "map_option (\<lambda>(r, s). (r, map fname (calls s), warnings s))
        (acquire example_driver no_acquire_args example_ats_ts) =
      Some (Inl (TypeError ''unsupported operand type(s) for %''),
            [''AlazarAbortAsyncRead'', ''AlazarGetChannelInfo''], [])"
    using pre_ts by (simp add: acquire_result split: prod.splits sum.splits)
  with before_async_read_ts_raises show ?thesis by simp
qed

section \<open>Buffers\<close>

lemma c_long_in_range: "- (2 ^ 31) \<le> n \<Longrightarrow> n < 2 ^ 31 \<Longrightarrow> c_long n = n"
  unfolding c_long_def by (simp add: sint_sbintrunc' signed_take_bit_int_eq_self)

text \<open>
  When the product of the samples per buffer and the number of channels fits the 32-bit
  \<open>c_long\<close>, the constructor (8 bits per sample, on Windows) requests exactly that many
  bytes from \<open>VirtualAlloc\<close>, once, and a buffer it returns has that length. With another
  sample width, or on another host, it raises an \<open>Exception\<close> and requests nothing.
\<close>

lemma Buffer_init_in_range:
  "(- (2 ^ 31) \<le> spb * nch \<and> spb * nch < 2 ^ 31 \<and> bits = 8 \<and> os_name h = ''nt'' \<longrightarrow>
      snd (Buffer_init h bits spb nch) = [spb * nch]
      \<and> (\<forall>b. fst (Buffer_init h bits spb nch) = Inr b \<longrightarrow> buffer_len b = spb * nch))
   \<and> (bits \<noteq> 8 \<or> os_name h \<noteq> ''nt'' \<longrightarrow>
      (\<exists>msg. Buffer_init h bits spb nch = (Inl (Exception msg), [])))"
  by (auto simp: Buffer_init_def Let_def c_long_in_range split: option.splits)

lemma Buffer_init_examples:
  "Buffer_init example_host 8 4096 2 =
     (Inr \<lparr>allocated = True, addr = 65536, buffer_len = 8192\<rparr>, [8192])
   \<and> Buffer_init example_host 16 4096 2 =
     (Inl (Exception ''Buffer: only 8 bit per sample supported''), [])"
  using Buffer_init_in_range [of 4096 2 8 example_host]
    Buffer_init_in_range [of 4096 2 16 example_host]
  by (simp add: Buffer_init_def Let_def example_host_def c_long_in_range)

text \<open>
  Claim C9. The size requested from \<open>VirtualAlloc\<close> is not always the product of the
  samples per buffer and the number of channels: the product goes through \<open>c_long\<close>,
  which keeps its low 32 bits. For 4294971392 samples on one channel the constructor
  requests 4096 bytes, and returns a buffer whose array has 4294971392 elements at the
  address of those 4096 bytes.
\<close>

theorem Buffer_init_request_wraps:
  "Buffer_init example_host 8 4294971392 1 =
     (Inr \<lparr>allocated = True, addr = 65536, buffer_len = 4294971392\<rparr>, [4096])"
  by (simp add: Buffer_init_def Let_def example_host_def c_long_def)

section \<open>Invariants of statements\<close>

lemma keepsI:
  "(\<And>s r s'. I s \<Longrightarrow> m s = (r, s') \<Longrightarrow> I s' \<and> (\<forall>x. r = Inr x \<longrightarrow> R x)) \<Longrightarrow> keeps I m R"
  unfolding keeps_def by blast

lemma keepsD:
  "keeps I m R \<Longrightarrow> I s \<Longrightarrow> m s = (r, s') \<Longrightarrow> I s' \<and> (\<forall>x. r = Inr x \<longrightarrow> R x)"
  unfolding keeps_def by blast

lemma keeps_returnE: "R x \<Longrightarrow> keeps I (returnE x) R"
  by (simp add: keeps_def)




lemma keeps_bindE:
  assumes m: "keeps I m R" and f: "\<And>x. R x \<Longrightarrow> keeps I (f x) R'"
  shows "keeps I (bindE m f) R'"
proof (rule keepsI)
  fix s r s'
  assume I: "I s" and run: "bindE m f s = (r, s')"
  obtain r1 s1 where m1: "m s = (r1, s1)" by (cases "m s")
  from keepsD [OF m I m1] have I1: "I s1" and R1: "\<And>x. r1 = Inr x \<Longrightarrow> R x" by auto
  show "I s' \<and> (\<forall>x. r = Inr x \<longrightarrow> R' x)"
  proof (cases r1)
    case (Inl e)
    with m1 run have "r = Inl e" "s' = s1" by (simp_all add: bindE_def)
    with I1 show ?thesis by simp
  next
    case (Inr x)
    with m1 run have "f x s1 = (r, s')" by (simp add: bindE_def)
    from keepsD [OF f [OF R1 [OF Inr]] I1 this] show ?thesis .
  qed
qed

lemma keeps_thenE: "keeps I m R \<Longrightarrow> keeps I n R' \<Longrightarrow> keeps I (thenE m n) R'"
  unfolding thenE_def by (rule keeps_bindE)

lemma keeps_seqE:
  "(\<And>m. m \<in> set ms \<Longrightarrow> keeps I m (\<lambda>_. True)) \<Longrightarrow> keeps I (seqE ms) (\<lambda>_. True)"
proof (induction ms)
  case Nil
  show ?case by (simp add: keeps_def)
next
  case (Cons m ms)
  show ?case
    by (simp, rule keeps_thenE [where R = "\<lambda>_. True"]) (simp_all add: Cons)
qed

lemma keeps_lookup_param: "keeps I (lookup_param k) (\<lambda>_. True)"
  by (auto simp: keeps_def lookup_param_def split: option.splits)

lemma keeps_param_set:
  assumes "\<And>s p'. I s \<Longrightarrow> I (s\<lparr>parameters := (parameters s)(k \<mapsto> p')\<rparr>)"
  shows "keeps I (param_set k v) (\<lambda>_. True)"
  using assms
  by (auto simp: keeps_def param_set_def bindE_def lookup_param_def
      split: option.splits prod.splits)

lemma keeps_set_if_given:
  assumes "\<And>s p'. I s \<Longrightarrow> I (s\<lparr>parameters := (parameters s)(k \<mapsto> p')\<rparr>)"
  shows "keeps I (set_if_given k v) (\<lambda>_. True)"
  unfolding set_if_given_def using assms by (simp add: keeps_returnE keeps_param_set)

lemma keeps_rest_mode:
  assumes "\<And>s k p'. I s \<Longrightarrow> k \<noteq> ''mode'' \<Longrightarrow> I (s\<lparr>parameters := (parameters s)(k \<mapsto> p')\<rparr>)"
  shows "keeps I (seqE (acquire_set_rest a)) (\<lambda>_. True)"
  apply (rule keeps_seqE)
  apply (auto simp: acquire_set_rest_def intro!: keeps_set_if_given assms)
  done

lemma acquire_set_args_split:
  "acquire_set_args a = thenE (set_if_given ''mode'' (mode a)) (seqE (acquire_set_rest a))"
  by (simp add: acquire_set_args_def acquire_set_rest_def)


section \<open>The mode check of \<open>acquire\<close>\<close>

text \<open>
  The mode is read with \<open>get\<close>; a committed mode other than \<open>'TS'\<close> and \<open>'NPT'\<close> is
  refused.
\<close>

lemma mode_is_value:
  "parameters s ''mode'' = Some q \<Longrightarrow> AlazarParameter_get q = Inr v \<Longrightarrow>
   mode_is m s = (Inr (v = PStr m), s)"
  by (simp add: mode_is_def param_get_def)

lemma acquire_prepare_unsupported:
  "parameters s ''mode'' = Some q \<Longrightarrow> AlazarParameter_get q = Inr v \<Longrightarrow>
   v \<noteq> PStr ''TS'' \<Longrightarrow> v \<noteq> PStr ''NPT'' \<Longrightarrow>
   acquire_prepare drv s = (Inl (Exception unsupported_mode_message), s)"
  by (simp add: acquire_prepare_def mode_is_value)

lemma until_loop_mode_unknown:
  assumes given: "mode a \<noteq> PNone"
    and p: "parameters s ''mode'' = Some p"
    and unknown: "map_of (value_to_byte_dict p) (mode a) = None"
  shows "\<exists>s'. acquire_until_loop drv a s =
            (Inl (KeyError (unknown_setting_message (mode a) (pname p))), s')
          \<and> calls s' = calls s"
proof -
  let ?e = "KeyError (unknown_setting_message (mode a) (pname p))"
  let ?s = "s\<lparr>parameters := (parameters s)(''mode'' \<mapsto> p)\<rparr>"
  from given p unknown have "set_if_given ''mode'' (mode a) s = (Inl ?e, ?s)"
    by (simp add: set_if_given_def param_set_def AlazarParameter_set_def)
  then have "acquire_until_loop drv a s = (Inl ?e, ?s)"
    by (simp add: acquire_until_loop_def acquire_set_args_split)
  then show ?thesis by simp
qed

lemma until_loop_mode_committed:
  assumes none: "mode a = PNone"
    and p: "parameters s ''mode'' = Some p"
    and v: "AlazarParameter_get p = Inr v" "v \<noteq> PStr ''TS''" "v \<noteq> PStr ''NPT''"
  shows "\<exists>e s'. acquire_until_loop drv a s = (Inl e, s') \<and> calls s' = calls s
     \<and> (e = Exception unsupported_mode_message \<or> acquire_set_args a s = (Inl e, s'))"
proof -
  let ?I = "\<lambda>t. calls t = calls s \<and> parameters t ''mode'' = Some p"
  obtain r2 s2 where 2: "seqE (acquire_set_rest a) s = (r2, s2)"
    by (cases "seqE (acquire_set_rest a) s")
  have "keeps ?I (seqE (acquire_set_rest a)) (\<lambda>_. True)"
    by (rule keeps_rest_mode) simp
  from keepsD [OF this _ 2] p have I2: "?I s2" by simp
  from none 2 have set: "acquire_set_args a s = (r2, s2)"
    by (simp add: acquire_set_args_split set_if_given_def)
  show ?thesis
  proof (cases r2)
    case (Inl e)
    with set have "acquire_until_loop drv a s = (Inl e, s2)"
      by (simp add: acquire_until_loop_def)
    with I2 set Inl show ?thesis by simp
  next
    case (Inr u)
    from I2 v have "acquire_prepare drv s2 = (Inl (Exception unsupported_mode_message), s2)"
      by (simp add: acquire_prepare_unsupported)
    with set Inr have "acquire_until_loop drv a s = (Inl (Exception unsupported_mode_message), s2)"
      by (simp add: acquire_until_loop_def)
    with I2 show ?thesis by simp
  qed
qed

text \<open>
  Claim C2. A call of \<open>acquire\<close> with a mode argument that is not in the table of the mode
  parameter raises the \<open>KeyError\<close> of \<open>_set\<close>, which names the value and the parameter,
  before any driver call: the record of driver calls is the one before the call. The
  exception for an unsupported mode is raised, again before any driver call, by a call
  without mode argument on an instrument whose committed mode is neither \<open>'TS'\<close> nor
  \<open>'NPT'\<close>, unless \<open>_set\<close> rejects an argument first.
\<close>

theorem acquire_rejects_mode_before_driver_call:
  "(mode a \<noteq> PNone \<and> parameters s ''mode'' = Some p
      \<and> map_of (value_to_byte_dict p) (mode a) = None \<longrightarrow>
      (\<exists>s'. acquire drv a s =
              Some (Inl (KeyError (unknown_setting_message (mode a) (pname p))), s')
            \<and> calls s' = calls s))
   \<and> (mode a = PNone \<and> parameters s ''mode'' = Some p \<and> AlazarParameter_get p = Inr v
        \<and> v \<noteq> PStr ''TS'' \<and> v \<noteq> PStr ''NPT'' \<longrightarrow>
      (\<exists>e s'. acquire drv a s = Some (Inl e, s') \<and> calls s' = calls s
         \<and> (e = Exception unsupported_mode_message \<or> acquire_set_args a s = (Inl e, s'))))"
proof (intro conjI impI)
  assume "mode a \<noteq> PNone \<and> parameters s ''mode'' = Some p
      \<and> map_of (value_to_byte_dict p) (mode a) = None"
  then have h: "mode a \<noteq> PNone" "parameters s ''mode'' = Some p"
    "map_of (value_to_byte_dict p) (mode a) = None"
    by simp_all
  from until_loop_mode_unknown [OF h, of drv]
  show "\<exists>s'. acquire drv a s =
              Some (Inl (KeyError (unknown_setting_message (mode a) (pname p))), s')
            \<and> calls s' = calls s"
    by (auto simp: acquire_result)
next
  assume "mode a = PNone \<and> parameters s ''mode'' = Some p \<and> AlazarParameter_get p = Inr v
        \<and> v \<noteq> PStr ''TS'' \<and> v \<noteq> PStr ''NPT''"
  then have h: "mode a = PNone" "parameters s ''mode'' = Some p" "AlazarParameter_get p = Inr v"
    "v \<noteq> PStr ''TS''" "v \<noteq> PStr ''NPT''"
    by simp_all
  have "\<exists>e s'. acquire_until_loop drv a s = (Inl e, s') \<and> calls s' = calls s
     \<and> (e = Exception unsupported_mode_message \<or> acquire_set_args a s = (Inl e, s'))"
    by (rule until_loop_mode_committed [OF h])
  then show "\<exists>e s'. acquire drv a s = Some (Inl e, s') \<and> calls s' = calls s
         \<and> (e = Exception unsupported_mode_message \<or> acquire_set_args a s = (Inl e, s'))"
    by (auto simp: acquire_result)
qed

lemma pre_cs_arg:
  "(case acquire_until_loop example_driver (no_acquire_args\<lparr>mode := PStr ''CS''\<rparr>) example_ats of
      (r, s) \<Rightarrow> (r, calls s, warnings s)) =
   (Inl (KeyError (unknown_setting_message (PStr ''CS'') (PStr ''mode''))), [], [])"
  by code_simp

lemma pre_cs:
  "(case acquire_until_loop example_driver no_acquire_args example_ats_cs of
      (r, s) \<Rightarrow> (r, calls s, warnings s)) =
   (Inl (Exception unsupported_mode_message), [], [])"
  by code_simp

lemma example_ats_mode:
  "parameters example_ats ''mode'' = Some example_mode"
  "map_of (value_to_byte_dict example_mode) (PStr ''TR'') = None"
  "pname example_mode = PStr ''mode''"
  by (simp_all add: example_ats_def example_parameters_def example_mode_def example_parameter_def)

lemma example_ats_cs_mode:
  "mode no_acquire_args = PNone"
  "parameters example_ats_cs ''mode'' =
     Some (example_parameter ''mode'' 256 [(256, PStr ''CS''), (512, PStr ''NPT''), (1024, PStr ''TS'')])"
  "AlazarParameter_get
     (example_parameter ''mode'' 256 [(256, PStr ''CS''), (512, PStr ''NPT''), (1024, PStr ''TS'')]) =
     Inr (PStr ''CS'')"
  by (simp_all add: no_acquire_args_def example_ats_cs_def example_ats_def
      AlazarParameter_get_def example_parameter_def)

theorem acquire_rejects_mode_before_driver_call_witness:
  "map_option (\<lambda>(r, s). (r, calls s))
     (acquire example_driver (no_acquire_args\<lparr>mode := PStr ''TR''\<rparr>) example_ats) =
     Some (Inl (KeyError (unknown_setting_message (PStr ''TR'') (PStr ''mode''))), [])
   \<and> map_option (\<lambda>(r, s). (r, calls s)) (acquire example_driver no_acquire_args example_ats_cs) =
     Some (Inl (Exception unsupported_mode_message), [])"
proof -
  have 1: "mode (no_acquire_args\<lparr>mode := PStr ''TR''\<rparr>) \<noteq> PNone"
    "mode (no_acquire_args\<lparr>mode := PStr ''TR''\<rparr>) = PStr ''TR''" by simp_all
  from acquire_rejects_mode_before_driver_call
         [of "no_acquire_args\<lparr>mode := PStr ''TR''\<rparr>" example_ats example_mode example_driver]
       1 example_ats_mode
  obtain s' where a:
    "acquire example_driver (no_acquire_args\<lparr>mode := PStr ''TR''\<rparr>) example_ats =
       Some (Inl (KeyError (unknown_setting_message (PStr ''TR'') (PStr ''mode''))), s')"
    "calls s' = calls example_ats"
    by auto
  then have A: "map_option (\<lambda>(r, s). (r, calls s))
     (acquire example_driver (no_acquire_args\<lparr>mode := PStr ''TR''\<rparr>) example_ats) =
     Some (Inl (KeyError (unknown_setting_message (PStr ''TR'') (PStr ''mode''))), [])"
    by (simp add: example_ats_def)
  from acquire_rejects_mode_before_driver_call
         [of no_acquire_args example_ats_cs
            "example_parameter ''mode'' 256 [(256, PStr ''CS''), (512, PStr ''NPT''), (1024, PStr ''TS'')]"
            example_driver "PStr ''CS''"] example_ats_cs_mode
  obtain e2 s2 where b:
    "acquire example_driver no_acquire_args example_ats_cs = Some (Inl e2, s2)"
    "calls s2 = calls example_ats_cs"
    by auto
  from b(1) pre_cs have "e2 = Exception unsupported_mode_message"
    by (simp add: acquire_result split: prod.splits sum.splits)
  with b have B: "map_option (\<lambda>(r, s). (r, calls s)) (acquire example_driver no_acquire_args example_ats_cs) =
     Some (Inl (Exception unsupported_mode_message), [])"
    by (simp add: example_ats_cs_def example_ats_def)
  from A B show ?thesis by simp
qed

text \<open>
  On the example instrument the table of the mode parameter holds \<open>'NPT'\<close> and \<open>'TS'\<close>
  only: \<open>acquire(mode='CS')\<close> raises the \<open>KeyError\<close> of \<open>_set\<close>, not the exception for an
  unsupported mode.
\<close>

theorem acquire_unknown_mode_raises_KeyError:
  "map_option (\<lambda>(r, s). (r, calls s))
     (acquire example_driver (no_acquire_args\<lparr>mode := PStr ''CS''\<rparr>) example_ats) =
     Some (Inl (KeyError (unknown_setting_message (PStr ''CS'') (PStr ''mode''))), [])"
  using pre_cs_arg by (simp add: acquire_result split: prod.splits sum.splits)

section \<open>The mode \<open>'NPT'\<close>\<close>



lemma marshal_other [simp]: "marshal bits CNone = Inr CNone" "marshal bits (CPtr x) = Inr (CPtr x)"
  by (simp_all add: marshal_def)













lemma code_of_set_updated:
  "parameters s k = Some p \<Longrightarrow>
   code_of (s\<lparr>parameters := (parameters s)(k \<mapsto> AlazarParameter_set_updated p)\<rparr>) = code_of s"
  by (rule ext) (simp add: code_of_def AlazarParameter_set_updated_def)
































section \<open>The order of device calls and commits in \<open>config\<close>\<close>

lemma config_example:
  "(case config failing_driver example_config_args example_config_ats of
      (r, s) \<Rightarrow> (r, map (\<lambda>c. (fname c, args c, ret c)) (calls s),
                 map (committed s) [''clock_source'', ''trigger_delay'', ''trigger_operation''],
                 map (code_of s) [''clock_source'', ''trigger_delay''])) =
   (Inl (Exception ''AlazarSetTriggerOperation raised 513: ApiFailed''),
    [(''AlazarSetCaptureClock'', [CInt 1, CInt 2, CInt 0, CInt 0, CInt 0], 512),
     (''AlazarInputControl'', [CInt 1, CInt 1, CInt 0, CInt 0, CInt 0], 512),
     (''AlazarSetBWLimit'', [CInt 1, CInt 1, CInt 0], 512),
     (''AlazarInputControl'', [CInt 1, CInt 2, CInt 0, CInt 0, CInt 0], 512),
     (''AlazarSetBWLimit'', [CInt 1, CInt 2, CInt 0], 512),
     (''AlazarSetTriggerOperation'',
        [CInt 1, CInt 0, CInt 0, CInt 0, CInt 0, CInt 0, CInt 0, CInt 0, CInt 0, CInt 0], 513)],
    [True, False, True], [Some 2, Some 5])"
  by code_simp

lemma set_phase_example:
  "(case config_set_args example_config_args example_config_ats of
      (r, s) \<Rightarrow> (r, calls s,
                 map (committed s) [''clock_source'', ''trigger_delay'', ''trigger_operation''])) =
   (Inr (), [], [False, False, True])"
  by code_simp

lemma result_handler_Inr: "result_handler rc src = Inr u \<longleftrightarrow> rc = succes"
  by (simp add: result_handler_def split: option.splits)

lemma dll_checked_cases:
  assumes "dll_checked drv f xs src s = (r, s')"
  shows "(\<exists>e. r = Inl e \<and> s' = s) \<or>
     (\<exists>ys rc. marshal_all (c_long_bits drv) (CInt (handle s) # xs) = Inr ys
        \<and> s' = s\<lparr>calls := calls s @ [\<lparr>fname = f, args = ys, ret = rc\<rparr>]\<rparr>
        \<and> (case r of Inl e \<Rightarrow> rc \<noteq> succes | Inr u \<Rightarrow> rc = succes))"
proof (cases "marshal_all (c_long_bits drv) (CInt (handle s) # xs)")
  case (Inl e)
  with assms have "r = Inl e" "s' = s" by (auto simp: dll_checked_def dll_def bindE_def)
  then show ?thesis by simp
next
  case (Inr ys)
  let ?rc = "status_of drv (calls s) f ys"
  from assms Inr have r: "r = result_handler ?rc src"
    and s': "s' = s\<lparr>calls := calls s @ [\<lparr>fname = f, args = ys, ret = ?rc\<rparr>]\<rparr>"
    by (auto simp: dll_checked_def dll_def bindE_def Let_def liftE_def)
  have "case r of Inl e \<Rightarrow> ?rc \<noteq> succes | Inr u \<Rightarrow> ?rc = succes"
  proof (cases r)
    case (Inl e)
    with r have "result_handler ?rc src = Inl e" by simp
    then have "result_handler ?rc src \<noteq> Inr ()" by simp
    then have "?rc \<noteq> succes" by (simp add: result_handler_Inr)
    with Inl show ?thesis by simp
  next
    case (Inr u)
    with r have "result_handler ?rc src = Inr u" by simp
    then have "?rc = succes" by (simp add: result_handler_Inr)
    with Inr show ?thesis by simp
  qed
  with s' Inr show ?thesis by blast
qed

lemma get_bytes_result:
  "get_bytes ks s = (r, s') \<Longrightarrow>
   s' = s \<and> (\<forall>bs. r = Inr bs \<longrightarrow> set ks \<subseteq> dom (parameters s) \<and> bs = map (code_of s) ks)"
proof (induction ks arbitrary: r s')
  case Nil
  then show ?case by auto
next
  case (Cons k ks)
  show ?case
  proof (cases "parameters s k")
    case None
    with Cons.prems show ?thesis by (auto simp: param_get_byte_def)
  next
    case (Some p)
    then have g: "param_get_byte k s = (Inr (byte p), s)"
      by (simp add: param_get_byte_def AlazarParameter_get_byte_def)
    obtain r1 s1 where 1: "get_bytes ks s = (r1, s1)" by (cases "get_bytes ks s")
    from Cons.IH [OF 1] have s1: "s1 = s"
      and bs: "\<And>bs. r1 = Inr bs \<Longrightarrow> set ks \<subseteq> dom (parameters s) \<and> bs = map (code_of s) ks"
      by simp_all
    show ?thesis
    proof (cases r1)
      case (Inl e)
      with Cons.prems g 1 s1 show ?thesis by auto
    next
      case (Inr bs)
      with Cons.prems g 1 s1 have "r = Inr (byte p # bs)" "s' = s" by auto
      with bs [OF Inr] Some show ?thesis by (auto simp: code_of_def)
    qed
  qed
qed

lemma commit_fields:
  "set ks \<subseteq> dom (parameters s) \<Longrightarrow>
   \<exists>s'. seqE (map param_set_updated ks) s = (Inr (), s') \<and> handle s' = handle s
      \<and> calls s' = calls s \<and> code_of s' = code_of s
      \<and> (\<forall>k \<in> set ks. committed s' k)
      \<and> (\<forall>k. k \<notin> set ks \<longrightarrow> parameters s' k = parameters s k)
      \<and> (\<forall>k. committed s k \<longrightarrow> committed s' k)"
proof (induction ks arbitrary: s)
  case Nil
  show ?case by simp
next
  case (Cons k ks)
  from Cons.prems obtain p where p: "parameters s k = Some p" by auto
  let ?s1 = "s\<lparr>parameters := (parameters s)(k \<mapsto> AlazarParameter_set_updated p)\<rparr>"
  from p have 1: "param_set_updated k s = (Inr (), ?s1)" by (simp add: param_set_updated_def)
  from Cons.prems have "set ks \<subseteq> dom (parameters ?s1)" by auto
  from Cons.IH [OF this] obtain s' where s':
    "seqE (map param_set_updated ks) ?s1 = (Inr (), s')" "handle s' = handle ?s1"
    "calls s' = calls ?s1" "code_of s' = code_of ?s1"
    "\<forall>k \<in> set ks. committed s' k"
    "\<forall>j. j \<notin> set ks \<longrightarrow> parameters s' j = parameters ?s1 j"
    "\<forall>j. committed ?s1 j \<longrightarrow> committed s' j"
    by blast
  have c1: "committed ?s1 k" by (simp add: committed_def AlazarParameter_set_updated_def)
  have mono: "committed s j \<Longrightarrow> committed ?s1 j" for j
    by (simp add: committed_def AlazarParameter_set_updated_def)
  from 1 s'(1) have "seqE (map param_set_updated (k # ks)) s = (Inr (), s')" by simp
  moreover from s'(4) code_of_set_updated [OF p] have "code_of s' = code_of s" by simp
  moreover from s'(5,7) c1 have "\<forall>j \<in> set (k # ks). committed s' j" by auto
  moreover from s'(6) have "\<forall>j. j \<notin> set (k # ks) \<longrightarrow> parameters s' j = parameters s j" by simp
  moreover from s'(7) mono have "\<forall>j. committed s j \<longrightarrow> committed s' j" by blast
  ultimately show ?case using s'(2,3) by auto
qed

lemma device_call_cases:
  assumes run: "device_call drv g s = (r, s')"
  shows "handle s' = handle s \<and> code_of s' = code_of s \<and>
     ((\<exists>e. r = Inl e \<and> parameters s' = parameters s \<and> (\<exists>cs. calls s' = calls s @ cs)) \<or>
      (r = Inr () \<and> (\<exists>c. calls s' = calls s @ [c] \<and> consumed_by drv s g c)
         \<and> (\<forall>k \<in> set (step_fields g). committed s' k)
         \<and> (\<forall>k. k \<notin> set (step_fields g) \<longrightarrow> parameters s' k = parameters s k)
         \<and> (\<forall>k. committed s k \<longrightarrow> committed s' k)))"
proof -
  obtain r1 s1 where 1: "get_bytes (step_fields g) s = (r1, s1)"
    by (cases "get_bytes (step_fields g) s")
  from get_bytes_result [OF 1] have s1: "s1 = s"
    and bs: "\<And>bs. r1 = Inr bs \<Longrightarrow>
       set (step_fields g) \<subseteq> dom (parameters s) \<and> bs = map (code_of s) (step_fields g)"
    by simp_all
  show ?thesis
  proof (cases r1)
    case (Inl e)
    with run 1 s1 show ?thesis by (auto simp: device_call_def)
  next
    case (Inr bs)
    from bs [OF Inr] have dom: "set (step_fields g) \<subseteq> dom (parameters s)"
      and bs': "bs = map (code_of s) (step_fields g)" by simp_all
    let ?xs = "step_leading g @ map carg_of bs"
    obtain r2 s2 where 2: "dll_checked drv (step_fname g) ?xs (step_source g) s = (r2, s2)"
      by (cases "dll_checked drv (step_fname g) ?xs (step_source g) s")
    from dll_checked_cases [OF 2] show ?thesis
    proof
      assume "\<exists>e. r2 = Inl e \<and> s2 = s"
      then obtain e where "r2 = Inl e" "s2 = s" by blast
      with run 1 s1 Inr 2 have "r = Inl e" "s' = s" by (simp_all add: device_call_def)
      then show ?thesis by simp
    next
      assume "\<exists>ys rc. marshal_all (c_long_bits drv) (CInt (handle s) # ?xs) = Inr ys
        \<and> s2 = s\<lparr>calls := calls s @ [\<lparr>fname = step_fname g, args = ys, ret = rc\<rparr>]\<rparr>
        \<and> (case r2 of Inl e \<Rightarrow> rc \<noteq> succes | Inr u \<Rightarrow> rc = succes)"
      then obtain ys rc where
        ys: "marshal_all (c_long_bits drv) (CInt (handle s) # ?xs) = Inr ys"
        and s2: "s2 = s\<lparr>calls := calls s @ [\<lparr>fname = step_fname g, args = ys, ret = rc\<rparr>]\<rparr>"
        and rc: "case r2 of Inl e \<Rightarrow> rc \<noteq> succes | Inr u \<Rightarrow> rc = succes"
        by blast
      have code2: "code_of s2 = code_of s" unfolding s2 by (rule ext) (simp add: code_of_def)
      have com2: "committed s2 k = committed s k" for k unfolding s2 by (simp add: committed_def)
      show ?thesis
      proof (cases r2)
        case (Inl e)
        with run 1 s1 Inr 2 have "r = Inl e" "s' = s2" by (simp_all add: device_call_def)
        with s2 code2 show ?thesis by simp
      next
        case r2: (Inr u)
        with rc have rc: "rc = succes" by simp
        from run 1 s1 Inr 2 r2
        have 3: "seqE (map param_set_updated (step_fields g)) s2 = (r, s')"
          by (simp add: device_call_def)
        from dom have "set (step_fields g) \<subseteq> dom (parameters s2)" by (simp add: s2)
        from commit_fields [OF this] 3 have
          r: "r = Inr ()" and h: "handle s' = handle s2" and c: "calls s' = calls s2"
          and code: "code_of s' = code_of s2"
          and com: "\<forall>k \<in> set (step_fields g). committed s' k"
          and oth: "\<forall>k. k \<notin> set (step_fields g) \<longrightarrow> parameters s' k = parameters s2 k"
          and mono: "\<forall>k. committed s2 k \<longrightarrow> committed s' k"
          by auto
        from ys have "consumed_by drv s g \<lparr>fname = step_fname g, args = ys, ret = rc\<rparr>"
          by (simp add: consumed_by_def rc bs' comp_def)
        with r h c code com oth mono code2 com2 show ?thesis
          by (auto simp: s2)
      qed
    qed
  qed
qed

lemma consumed_by_cong:
  "handle s = handle t \<Longrightarrow> code_of s = code_of t \<Longrightarrow> consumed_by drv s g c = consumed_by drv t g c"
  by (simp add: consumed_by_def)

lemma run_steps_Nil: "run_steps drv [] s = (Inr (), s)"
  by (simp add: run_steps_def)

lemma run_steps_Cons:
  "run_steps drv (g # gs) = thenE (device_call drv g) (run_steps drv gs)"
  by (simp add: run_steps_def)

lemma run_steps_props:
  "run_steps drv gs s = (r, s') \<Longrightarrow>
     handle s' = handle s \<and> code_of s' = code_of s \<and> (\<exists>cs. calls s' = calls s @ cs) \<and>
     commits_follow_calls drv gs s s' \<and> (\<forall>k. committed s k \<longrightarrow> committed s' k) \<and>
     (\<forall>k. k \<notin> (\<Union>g \<in> set gs. set (step_fields g)) \<longrightarrow> parameters s' k = parameters s k) \<and>
     (r = Inr () \<longrightarrow> (\<forall>g \<in> set gs. \<forall>k \<in> set (step_fields g). committed s' k))"
proof (induction gs arbitrary: s)
  case Nil
  then show ?case by (simp add: run_steps_Nil commits_follow_calls_def)
next
  case (Cons g gs)
  obtain r1 s1 where 1: "device_call drv g s = (r1, s1)" by (cases "device_call drv g s")
  from device_call_cases [OF 1] have h1: "handle s1 = handle s" and code1: "code_of s1 = code_of s"
    and cases1: "(\<exists>e. r1 = Inl e \<and> parameters s1 = parameters s \<and> (\<exists>cs. calls s1 = calls s @ cs)) \<or>
      (r1 = Inr () \<and> (\<exists>c. calls s1 = calls s @ [c] \<and> consumed_by drv s g c)
         \<and> (\<forall>k \<in> set (step_fields g). committed s1 k)
         \<and> (\<forall>k. k \<notin> set (step_fields g) \<longrightarrow> parameters s1 k = parameters s k)
         \<and> (\<forall>k. committed s k \<longrightarrow> committed s1 k))"
    by simp_all
  from cases1 show ?case
  proof
    assume "\<exists>e. r1 = Inl e \<and> parameters s1 = parameters s \<and> (\<exists>cs. calls s1 = calls s @ cs)"
    then obtain e where e: "r1 = Inl e" and p: "parameters s1 = parameters s"
      and c: "\<exists>cs. calls s1 = calls s @ cs" by blast
    from Cons.prems 1 e have "r = Inl e" "s' = s1" by (simp_all add: run_steps_Cons)
    with h1 code1 p c show ?thesis by (simp add: commits_follow_calls_def committed_def)
  next
    assume ok: "r1 = Inr () \<and> (\<exists>c. calls s1 = calls s @ [c] \<and> consumed_by drv s g c)
         \<and> (\<forall>k \<in> set (step_fields g). committed s1 k)
         \<and> (\<forall>k. k \<notin> set (step_fields g) \<longrightarrow> parameters s1 k = parameters s k)
         \<and> (\<forall>k. committed s k \<longrightarrow> committed s1 k)"
    then obtain c where c: "calls s1 = calls s @ [c]" "consumed_by drv s g c" by blast
    from ok have com1: "\<forall>k \<in> set (step_fields g). committed s1 k"
      and oth1: "\<forall>k. k \<notin> set (step_fields g) \<longrightarrow> parameters s1 k = parameters s k"
      and mono1: "\<forall>k. committed s k \<longrightarrow> committed s1 k" by simp_all
    from Cons.prems 1 ok have 2: "run_steps drv gs s1 = (r, s')" by (simp add: run_steps_Cons)
    from Cons.IH [OF 2] obtain cs where
      h: "handle s' = handle s1" and code: "code_of s' = code_of s1"
      and cs: "calls s' = calls s1 @ cs"
      and fol: "commits_follow_calls drv gs s1 s'"
      and mono: "\<forall>k. committed s1 k \<longrightarrow> committed s' k"
      and oth: "\<forall>k. k \<notin> (\<Union>g \<in> set gs. set (step_fields g)) \<longrightarrow> parameters s' k = parameters s1 k"
      and fin: "r = Inr () \<longrightarrow> (\<forall>g \<in> set gs. \<forall>k \<in> set (step_fields g). committed s' k)"
      by blast
    have new: "new_calls s s' = c # cs" "new_calls s1 s' = cs"
      by (simp_all add: new_calls_def cs c)
    have cons: "consumed_by drv s' g' c' = consumed_by drv s g' c'" for g' c'
      by (rule consumed_by_cong) (simp_all add: h h1 code code1)
    have "commits_follow_calls drv (g # gs) s s'"
      unfolding commits_follow_calls_def
    proof (intro allI impI)
      fix k
      assume k: "committed s' k \<and> \<not> committed s k"
      show "\<exists>g' \<in> set (g # gs). k \<in> set (step_fields g') \<and>
              (\<exists>c' \<in> set (new_calls s s'). consumed_by drv s' g' c')"
      proof (cases "committed s1 k")
        case True
        with k oth1 have "k \<in> set (step_fields g)" by (auto simp: committed_def)
        with c(2) show ?thesis by (auto simp: new cons)
      next
        case False
        with k fol obtain g' c' where "g' \<in> set gs" "k \<in> set (step_fields g')"
          "c' \<in> set cs" "consumed_by drv s' g' c'"
          by (auto simp: commits_follow_calls_def new)
        then show ?thesis by (auto simp: new)
      qed
    qed
    moreover from mono mono1 have "\<forall>k. committed s k \<longrightarrow> committed s' k" by blast
    moreover from oth oth1
    have "\<forall>k. k \<notin> (\<Union>g \<in> set (g # gs). set (step_fields g)) \<longrightarrow> parameters s' k = parameters s k"
      by simp
    moreover from fin com1 mono
    have "r = Inr () \<longrightarrow> (\<forall>g' \<in> set (g # gs). \<forall>k \<in> set (step_fields g'). committed s' k)"
      by auto
    ultimately show ?thesis using h h1 code code1 cs c(1) by simp
  qed
qed

lemma run_steps_failure:
  "run_steps drv gs s = (Inl e, s') \<Longrightarrow>
   \<exists>done g rest s1. gs = done @ g # rest \<and> run_steps drv done s = (Inr (), s1)
      \<and> device_call drv g s1 = (Inl e, s') \<and> parameters s' = parameters s1"
proof (induction gs arbitrary: s)
  case Nil
  then show ?case by (simp add: run_steps_Nil)
next
  case (Cons g gs)
  obtain r1 s1 where 1: "device_call drv g s = (r1, s1)" by (cases "device_call drv g s")
  show ?case
  proof (cases r1)
    case (Inl e1)
    with Cons.prems 1 have "e1 = e" "s1 = s'" by (simp_all add: run_steps_Cons)
    with 1 Inl device_call_cases [OF 1] have "device_call drv g s = (Inl e, s')"
      "parameters s' = parameters s" by auto
    then have "g # gs = [] @ g # gs \<and> run_steps drv [] s = (Inr (), s)
      \<and> device_call drv g s = (Inl e, s') \<and> parameters s' = parameters s"
      by (simp add: run_steps_Nil)
    then show ?thesis by blast
  next
    case (Inr u)
    with Cons.prems 1 have "run_steps drv gs s1 = (Inl e, s')" by (simp add: run_steps_Cons)
    from Cons.IH [OF this] obtain done' g' rest s2 where
      d: "gs = done' @ g' # rest" "run_steps drv done' s1 = (Inr (), s2)"
      "device_call drv g' s2 = (Inl e, s')" "parameters s' = parameters s2"
      by blast
    from 1 Inr d(2) have "run_steps drv (g # done') s = (Inr (), s2)"
      by (simp add: run_steps_Cons)
    with d have "g # gs = (g # done') @ g' # rest \<and> run_steps drv (g # done') s = (Inr (), s2)
      \<and> device_call drv g' s2 = (Inl e, s') \<and> parameters s' = parameters s2"
      by simp
    then show ?thesis by blast
  qed
qed

lemma set_phase_inv_param_set:
  "keeps (\<lambda>t. calls t = c \<and> handle t = h \<and> (\<forall>k. committed t k \<longrightarrow> C k)) (param_set key v) (\<lambda>_. True)"
  by (auto simp: keeps_def param_set_def bindE_def lookup_param_def AlazarParameter_set_def
      committed_def split: option.splits prod.splits if_splits)

lemma set_phase_inv_set_if_given:
  "keeps (\<lambda>t. calls t = c \<and> handle t = h \<and> (\<forall>k. committed t k \<longrightarrow> C k)) (set_if_given key v) (\<lambda>_. True)"
  unfolding set_if_given_def by (simp add: set_phase_inv_param_set) (simp add: keeps_def)

lemma set_phase_inv_set_enumerated:
  "keeps (\<lambda>t. calls t = c \<and> handle t = h \<and> (\<forall>k. committed t k \<longrightarrow> C k))
     (set_enumerated base i vs) (\<lambda>_. True)"
proof (induction vs arbitrary: i)
  case Nil
  show ?case by (simp add: keeps_def)
next
  case (Cons v vs)
  show ?case
    by (simp, rule keeps_thenE [where R = "\<lambda>_. True"]) (rule set_phase_inv_param_set, rule Cons)
qed

lemma set_phase_inv_set_each:
  "keeps (\<lambda>t. calls t = c \<and> handle t = h \<and> (\<forall>k. committed t k \<longrightarrow> C k))
     (set_each_if_given base arg) (\<lambda>_. True)"
  unfolding set_each_if_given_def
  by (cases arg) (simp_all add: set_phase_inv_set_enumerated, simp add: keeps_def)

lemma set_phase_inv:
  "keeps (\<lambda>t. calls t = c \<and> handle t = h \<and> (\<forall>k. committed t k \<longrightarrow> C k))
     (config_set_args a) (\<lambda>_. True)"
  unfolding config_set_args_def
  by (rule keeps_seqE) (auto intro: set_phase_inv_set_if_given set_phase_inv_set_each)

lemma config_set_args_commits_nothing:
  assumes "config_set_args a s = (r, s0)"
  shows "calls s0 = calls s \<and> handle s0 = handle s \<and> (\<forall>k. committed s0 k \<longrightarrow> committed s k)"
  using keepsD [OF set_phase_inv [of "calls s" "handle s" "\<lambda>k. committed s k" a] _ assms]
  by simp

lemma config_phases:
  assumes "config drv a s = (r, s')"
  shows "\<exists>r0 s0. config_set_args a s = (r0, s0) \<and> calls s0 = calls s
      \<and> (\<forall>k. committed s0 k \<longrightarrow> committed s k)
      \<and> (case r0 of Inl e \<Rightarrow> r = Inl e \<and> s' = s0
                   | Inr u \<Rightarrow> run_steps drv config_steps s0 = (r, s'))"
proof -
  obtain r0 s0 where 0: "config_set_args a s = (r0, s0)" by (cases "config_set_args a s")
  from config_set_args_commits_nothing [OF 0] assms 0 show ?thesis
    by (cases r0) (auto simp: config_def)
qed


lemma run_steps_append:
  "run_steps drv (gs1 @ gs2) t =
     (case run_steps drv gs1 t of
        (Inl e, t1) \<Rightarrow> (Inl e, t1)
      | (Inr u, t1) \<Rightarrow> run_steps drv gs2 t1)"
proof (induction gs1 arbitrary: t)
  case Nil
  show ?case by (simp add: run_steps_Nil)
next
  case (Cons g gs1)
  obtain r1 t1 where 1: "device_call drv g t = (r1, t1)" by (cases "device_call drv g t")
  show ?case
  proof (cases r1)
    case (Inl e)
    with 1 show ?thesis by (simp add: run_steps_Cons)
  next
    case (Inr u)
    with 1 Cons [of t1] show ?thesis by (simp add: run_steps_Cons)
  qed
qed

text \<open>
  Claim C6. \<open>config\<close> first sets the parameters given as arguments, which makes no driver
  call and commits no parameter, and then runs its device calls in order. In a run of
  device calls, every parameter that is committed at the end and was not at the start is
  a field of a step for which a call has been made that received the code the parameter
  holds and returned the success code; no code changes, a committed parameter stays
  committed, a parameter that is no field of a step is unchanged, and when the run returns
  every field of every step is committed. When the run raises, the steps before the
  failing one have returned, the failing step has raised, and the parameters are those
  the failing step found: what the earlier steps committed stays committed, and nothing
  else is. The run of a list of steps is the run of a first part followed, when that
  returns, by the run of the rest, so the above holds of the state after each step.
\<close>

theorem config_commits_after_success:
  "(config drv a s = (r, s') \<longrightarrow>
      (\<exists>r0 s0. config_set_args a s = (r0, s0) \<and> calls s0 = calls s
         \<and> (\<forall>k. committed s0 k \<longrightarrow> committed s k)
         \<and> (case r0 of Inl e \<Rightarrow> r = Inl e \<and> s' = s0
                       | Inr u \<Rightarrow> run_steps drv config_steps s0 = (r, s'))))
   \<and> (run_steps drv gs t = (q, t') \<longrightarrow>
        commits_follow_calls drv gs t t' \<and> code_of t' = code_of t
        \<and> (\<forall>k. committed t k \<longrightarrow> committed t' k)
        \<and> (\<forall>k. k \<notin> (\<Union>g \<in> set gs. set (step_fields g)) \<longrightarrow> parameters t' k = parameters t k)
        \<and> (q = Inr () \<longrightarrow> (\<forall>g \<in> set gs. \<forall>k \<in> set (step_fields g). committed t' k)))
   \<and> (run_steps drv gs t = (Inl e, t') \<longrightarrow>
        (\<exists>done g rest t1. gs = done @ g # rest \<and> run_steps drv done t = (Inr (), t1)
           \<and> device_call drv g t1 = (Inl e, t') \<and> parameters t' = parameters t1))
   \<and> run_steps drv (gs1 @ gs2) t =
        (case run_steps drv gs1 t of
           (Inl e, t1) \<Rightarrow> (Inl e, t1)
         | (Inr u, t1) \<Rightarrow> run_steps drv gs2 t1)"
proof (intro conjI impI)
  assume "config drv a s = (r, s')"
  then show "\<exists>r0 s0. config_set_args a s = (r0, s0) \<and> calls s0 = calls s
         \<and> (\<forall>k. committed s0 k \<longrightarrow> committed s k)
         \<and> (case r0 of Inl e \<Rightarrow> r = Inl e \<and> s' = s0
                       | Inr u \<Rightarrow> run_steps drv config_steps s0 = (r, s'))"
    by (rule config_phases)
next
  assume run: "run_steps drv gs t = (q, t')"
  from run_steps_props [OF run]
  show "commits_follow_calls drv gs t t'" "code_of t' = code_of t"
    "\<forall>k. committed t k \<longrightarrow> committed t' k"
    "\<forall>k. k \<notin> (\<Union>g \<in> set gs. set (step_fields g)) \<longrightarrow> parameters t' k = parameters t k"
    by blast+
  assume "q = Inr ()"
  with run_steps_props [OF run]
  show "\<forall>g \<in> set gs. \<forall>k \<in> set (step_fields g). committed t' k" by blast
next
  assume "run_steps drv gs t = (Inl e, t')"
  then show "\<exists>done g rest t1. gs = done @ g # rest \<and> run_steps drv done t = (Inr (), t1)
           \<and> device_call drv g t1 = (Inl e, t') \<and> parameters t' = parameters t1"
    by (rule run_steps_failure)
next
  show "run_steps drv (gs1 @ gs2) t =
        (case run_steps drv gs1 t of
           (Inl e, t1) \<Rightarrow> (Inl e, t1)
         | (Inr u, t1) \<Rightarrow> run_steps drv gs2 t1)"
    by (rule run_steps_append)
qed

theorem config_commits_after_success_witness:
  "(case config failing_driver example_config_args example_config_ats of
      (r, s) \<Rightarrow> (r, map (\<lambda>c. (fname c, args c, ret c)) (calls s),
                 map (committed s) [''clock_source'', ''trigger_delay'', ''trigger_operation''],
                 map (code_of s) [''clock_source'', ''trigger_delay''])) =
   (Inl (Exception ''AlazarSetTriggerOperation raised 513: ApiFailed''),
    [(''AlazarSetCaptureClock'', [CInt 1, CInt 2, CInt 0, CInt 0, CInt 0], 512),
     (''AlazarInputControl'', [CInt 1, CInt 1, CInt 0, CInt 0, CInt 0], 512),
     (''AlazarSetBWLimit'', [CInt 1, CInt 1, CInt 0], 512),
     (''AlazarInputControl'', [CInt 1, CInt 2, CInt 0, CInt 0, CInt 0], 512),
     (''AlazarSetBWLimit'', [CInt 1, CInt 2, CInt 0], 512),
     (''AlazarSetTriggerOperation'',
        [CInt 1, CInt 0, CInt 0, CInt 0, CInt 0, CInt 0, CInt 0, CInt 0, CInt 0, CInt 0], 513)],
    [True, False, True], [Some 2, Some 5])
   \<and> \<not> committed (snd (config_set_args example_config_args example_config_ats)) ''clock_source''
   \<and> commits_follow_calls failing_driver config_steps
        (snd (config_set_args example_config_args example_config_ats))
        (snd (config failing_driver example_config_args example_config_ats))
   \<and> (\<exists>done g rest t1. config_steps = done @ g # rest
        \<and> run_steps failing_driver done
             (snd (config_set_args example_config_args example_config_ats)) = (Inr (), t1)
        \<and> device_call failing_driver g t1 =
             (Inl (Exception ''AlazarSetTriggerOperation raised 513: ApiFailed''),
              snd (config failing_driver example_config_args example_config_ats))
        \<and> parameters (snd (config failing_driver example_config_args example_config_ats)) =
            parameters t1)"
proof -
  let ?e = "Exception ''AlazarSetTriggerOperation raised 513: ApiFailed''"
  let ?S0 = "snd (config_set_args example_config_args example_config_ats)"
  let ?S' = "snd (config failing_driver example_config_args example_config_ats)"
  from config_example
  have F1: "config failing_driver example_config_args example_config_ats = (Inl ?e, ?S')"
    by (simp split: prod.splits)
  from set_phase_example
  have F2: "config_set_args example_config_args example_config_ats = (Inr (), ?S0)"
    and F2': "\<not> committed ?S0 ''clock_source''"
    by (simp_all split: prod.splits)
  from F1 F2 have F3: "run_steps failing_driver config_steps ?S0 = (Inl ?e, ?S')"
    by (simp add: config_def)
  note g = config_commits_after_success
    [where drv = failing_driver and a = example_config_args and s = example_config_ats
       and r = "Inl ?e" and s' = ?S' and gs = config_steps and t = ?S0 and q = "Inl ?e"
       and t' = ?S' and e = ?e]
  from g F3 have A: "commits_follow_calls failing_driver config_steps ?S0 ?S'" by blast
  from g F3 have B: "\<exists>done g rest t1. config_steps = done @ g # rest
        \<and> run_steps failing_driver done ?S0 = (Inr (), t1)
        \<and> device_call failing_driver g t1 = (Inl ?e, ?S')
        \<and> parameters ?S' = parameters t1"
    by blast
  from A B config_example F2' show ?thesis by blast
qed

end
